theory Spec2Isabelle
  imports Complex_Main "HOL-Library.AList" "HOL-Library.Log_Nat"
begin

section \<open>The equipment optimisation model of preparation.py\<close>

text \<open>
  The embedding follows class \<open>EquipmentOptimizationModel\<close>. Python's numbers are
  modelled as the interpreter has them: an \<open>int\<close> is unbounded, a \<open>float\<close> is an
  IEEE 754 double whose every operation rounds to the nearest double, a tie to the even
  mantissa, and overflows to an infinity; an \<open>int\<close> that meets a \<open>float\<close> is
  converted first, which raises \<open>OverflowError\<close> beyond the range of a double. The
  sign of a zero is not tracked: no operation of the code tells \<open>-0.0\<close> from \<open>0.0\<close>.
  Dictionaries are association lists in insertion order. An exception of the
  interpreter is a value \<open>Inl\<close> of the result.
\<close>

subsection \<open>Python numbers\<close>

datatype error = KeyError string | IndexError | ZeroDivisionError | OverflowError | ValueError

datatype double = Finite rat | PosInf | NegInf | NaN

datatype number = PyInt int | PyFloat double

text \<open>Sequencing of two steps of which the first may raise.\<close>

definition and_then :: "error + 'a \<Rightarrow> ('a \<Rightarrow> error + 'b) \<Rightarrow> error + 'b" where
  "and_then r f = (case r of Inl e \<Rightarrow> Inl e | Inr v \<Rightarrow> f v)"

text \<open>
  Python's \<open>round\<close> of a number to an integer: to the nearest, a tie to the even
  neighbour.
\<close>

definition py_round :: "rat \<Rightarrow> int" where
  "py_round v =
     (let f = \<lfloor>v\<rfloor>; d = v - of_int f
      in if d < 1 / 2 then f
         else if 1 / 2 < d then f + 1
         else if even f then f else f + 1)"

text \<open>The exponent \<open>e\<close> of a positive number: \<open>2 powi e \<le> x < 2 powi (e + 1)\<close>.\<close>

definition floor_log2 :: "rat \<Rightarrow> int" where
  "floor_log2 x = (if 1 \<le> x then bitlen \<lfloor>x\<rfloor> - 1 else - bitlen (\<lceil>1 / x\<rceil> - 1))"

text \<open>
  The double nearest to an exact value: 53 bits of mantissa at the exponent of the
  value, the spacing of the subnormal numbers below \<open>2 powi (- 1022)\<close>, an infinity
  when the rounded value reaches \<open>2 powi 1024\<close>.
\<close>

definition fround :: "rat \<Rightarrow> double" where
  "fround x =
     (if x = 0 then Finite 0
      else let e = max (floor_log2 \<bar>x\<bar>) (- 1022);
               u = 2 powi (e - 52);
               y = of_int (py_round (x / u)) * u
           in if 2 powi 1024 \<le> \<bar>y\<bar> then (if 0 < x then PosInf else NegInf) else Finite y)"

text \<open>A decimal literal of the source, such as \<open>0.85\<close>, is the double nearest to it.\<close>

definition float_literal :: "rat \<Rightarrow> double" where
  "float_literal r = fround r"

fun fneg :: "double \<Rightarrow> double" where
  "fneg (Finite a) = Finite (- a)"
| "fneg PosInf = NegInf"
| "fneg NegInf = PosInf"
| "fneg NaN = NaN"

fun fadd :: "double \<Rightarrow> double \<Rightarrow> double" where
  "fadd (Finite a) (Finite b) = fround (a + b)"
| "fadd NaN b = NaN"
| "fadd a NaN = NaN"
| "fadd PosInf NegInf = NaN"
| "fadd NegInf PosInf = NaN"
| "fadd PosInf b = PosInf"
| "fadd a PosInf = PosInf"
| "fadd NegInf b = NegInf"
| "fadd a NegInf = NegInf"

fun fmul :: "double \<Rightarrow> double \<Rightarrow> double" where
  "fmul (Finite a) (Finite b) = fround (a * b)"
| "fmul NaN b = NaN"
| "fmul a NaN = NaN"
| "fmul (Finite a) PosInf = (if a = 0 then NaN else if 0 < a then PosInf else NegInf)"
| "fmul (Finite a) NegInf = (if a = 0 then NaN else if 0 < a then NegInf else PosInf)"
| "fmul PosInf (Finite b) = (if b = 0 then NaN else if 0 < b then PosInf else NegInf)"
| "fmul NegInf (Finite b) = (if b = 0 then NaN else if 0 < b then NegInf else PosInf)"
| "fmul PosInf PosInf = PosInf"
| "fmul PosInf NegInf = NegInf"
| "fmul NegInf PosInf = NegInf"
| "fmul NegInf NegInf = PosInf"

text \<open>The conversion of an \<open>int\<close> that meets a \<open>float\<close>.\<close>

definition int_to_double :: "int \<Rightarrow> error + double" where
  "int_to_double n =
     (case fround (of_int n) of Finite v \<Rightarrow> Inr (Finite v) | d \<Rightarrow> Inl OverflowError)"

definition to_double :: "number \<Rightarrow> error + double" where
  "to_double a = (case a of PyInt n \<Rightarrow> int_to_double n | PyFloat d \<Rightarrow> Inr d)"

text \<open>
  \<open>+\<close>, \<open>-\<close>, \<open>*\<close> and unary minus: exact on two \<open>int\<close>s, in doubles as soon as one
  operand is a \<open>float\<close>.
\<close>

definition num_neg :: "number \<Rightarrow> number" where
  "num_neg a = (case a of PyInt n \<Rightarrow> PyInt (- n) | PyFloat d \<Rightarrow> PyFloat (fneg d))"

definition num_add :: "number \<Rightarrow> number \<Rightarrow> error + number" where
  "num_add a b =
     (case (a, b) of
        (PyInt m, PyInt n) \<Rightarrow> Inr (PyInt (m + n))
      | _ \<Rightarrow> and_then (to_double a) (\<lambda>x. and_then (to_double b) (\<lambda>y. Inr (PyFloat (fadd x y)))))"

definition num_sub :: "number \<Rightarrow> number \<Rightarrow> error + number" where
  "num_sub a b =
     (case (a, b) of
        (PyInt m, PyInt n) \<Rightarrow> Inr (PyInt (m - n))
      | _ \<Rightarrow> and_then (to_double a) (\<lambda>x. and_then (to_double b)
                (\<lambda>y. Inr (PyFloat (fadd x (fneg y))))))"

definition num_mul :: "number \<Rightarrow> number \<Rightarrow> error + number" where
  "num_mul a b =
     (case (a, b) of
        (PyInt m, PyInt n) \<Rightarrow> Inr (PyInt (m * n))
      | _ \<Rightarrow> and_then (to_double a) (\<lambda>x. and_then (to_double b) (\<lambda>y. Inr (PyFloat (fmul x y)))))"

text \<open>
  \<open>/\<close> on two \<open>int\<close>s: the double nearest to the exact quotient, \<open>OverflowError\<close>
  when there is none, \<open>ZeroDivisionError\<close> on a zero divisor.
\<close>

definition int_truediv :: "int \<Rightarrow> int \<Rightarrow> error + double" where
  "int_truediv m n =
     (if n = 0 then Inl ZeroDivisionError
      else case fround (of_int m / of_int n) of
             Finite v \<Rightarrow> Inr (Finite v)
           | d \<Rightarrow> Inl OverflowError)"

subsection \<open>Data\<close>

text \<open>
  One catalog entry. The costs, the lifespan and the quantity bounds are \<open>int\<close>s of the
  source; the two scores are decimal literals, kept as written and read through
  \<open>float_literal\<close>. The display name, a string that only the plotting code and the
  demonstration driver read, is left out.
\<close>

record equipment =
  acquisition_cost :: int
  maintenance_cost :: int
  readiness_cost :: int
  usage_cost_per_hour :: int
  efficiency_gain :: rat
  response_time_reduction :: rat
  lifespan :: int
  quantity_min :: int
  quantity_max :: int

text \<open>The dictionary returned by \<open>calculate_annual_cost\<close>.\<close>

record cost_dict =
  cd_acquisition :: number
  cd_maintenance :: number
  cd_readiness :: number
  cd_usage :: number
  cd_total :: number

text \<open>The dictionary returned by \<open>calculate_efficiency_score\<close>.\<close>

record efficiency =
  efficiency_score :: number
  response_improvement :: number
  overall_score :: number

text \<open>The dictionary returned by \<open>generate_cost_breakdown\<close>.\<close>

record breakdown =
  annual_breakdown :: "(string \<times> cost_dict) list"
  total_annual_cost :: number
  total_5year_cost :: number
  efficiency_metrics :: efficiency

text \<open>
  The arguments that \<open>optimize_equipment_selection\<close> computes for \<open>linprog\<close>, as the
  arrays of doubles that the solver makes of them, and the two fields of the result
  that the function reads. The solver itself is a library outside the repository: the
  function takes it as a parameter, which stands for \<open>linprog\<close> with its constant
  arguments \<open>method='highs'\<close> and \<open>integrality=1\<close>.
\<close>

record linear_program =
  lp_c :: "rat list"
  lp_A_ub :: "rat list list"
  lp_b_ub :: "rat list"
  lp_bounds :: "(int \<times> int) list"

record lp_result =
  lp_success :: bool
  lp_x :: "rat list"

type_synonym config = "(string \<times> int) list"

subsection \<open>The catalog built by the constructor\<close>

definition backup_drone :: equipment where
  "backup_drone = \<lparr>acquisition_cost = 30000, maintenance_cost = 4500, readiness_cost = 2000,
     usage_cost_per_hour = 500, efficiency_gain = 0.85, response_time_reduction = 0.7,
     lifespan = 3, quantity_min = 1, quantity_max = 5\<rparr>"

definition thermal_camera :: equipment where
  "thermal_camera = \<lparr>acquisition_cost = 50000, maintenance_cost = 2500, readiness_cost = 1000,
     usage_cost_per_hour = 100, efficiency_gain = 0.65, response_time_reduction = 0.3,
     lifespan = 5, quantity_min = 0, quantity_max = 3\<rparr>"

definition gps_tracker :: equipment where
  "gps_tracker = \<lparr>acquisition_cost = 2000, maintenance_cost = 300, readiness_cost = 200,
     usage_cost_per_hour = 50, efficiency_gain = 0.75, response_time_reduction = 0.6,
     lifespan = 2, quantity_min = 2, quantity_max = 10\<rparr>"

definition satellite_comm :: equipment where
  "satellite_comm = \<lparr>acquisition_cost = 15000, maintenance_cost = 3000, readiness_cost = 1500,
     usage_cost_per_hour = 200, efficiency_gain = 0.55, response_time_reduction = 0.4,
     lifespan = 4, quantity_min = 1, quantity_max = 3\<rparr>"

definition rf_detector :: equipment where
  "rf_detector = \<lparr>acquisition_cost = 20000, maintenance_cost = 1000, readiness_cost = 800,
     usage_cost_per_hour = 150, efficiency_gain = 0.60, response_time_reduction = 0.5,
     lifespan = 4, quantity_min = 1, quantity_max = 4\<rparr>"

definition portable_gps :: equipment where
  "portable_gps = \<lparr>acquisition_cost = 3000, maintenance_cost = 300, readiness_cost = 200,
     usage_cost_per_hour = 50, efficiency_gain = 0.45, response_time_reduction = 0.35,
     lifespan = 3, quantity_min = 3, quantity_max = 8\<rparr>"

definition offroad_vehicle :: equipment where
  "offroad_vehicle = \<lparr>acquisition_cost = 300000, maintenance_cost = 30000, readiness_cost = 10000,
     usage_cost_per_hour = 500, efficiency_gain = 0.70, response_time_reduction = 0.65,
     lifespan = 8, quantity_min = 0, quantity_max = 2\<rparr>"

definition control_equipment :: "(string \<times> equipment) list" where
  "control_equipment =
     [(''backup_drone'', backup_drone), (''thermal_camera'', thermal_camera),
      (''gps_tracker'', gps_tracker), (''satellite_comm'', satellite_comm)]"

definition rescue_equipment :: "(string \<times> equipment) list" where
  "rescue_equipment =
     [(''rf_detector'', rf_detector), (''portable_gps'', portable_gps),
      (''offroad_vehicle'', offroad_vehicle)]"

text \<open>
  The lookup that opens \<open>calculate_annual_cost\<close> and the loop body of
  \<open>calculate_efficiency_score\<close>: the control dictionary when it has the key, the
  rescue dictionary otherwise, whose subscript raises \<open>KeyError\<close> on a missing key.
\<close>

definition lookup_equipment :: "string \<Rightarrow> error + equipment" where
  "lookup_equipment equipment_type =
     (case map_of control_equipment equipment_type of
        Some eq \<Rightarrow> Inr eq
      | None \<Rightarrow>
          (case map_of rescue_equipment equipment_type of
             Some eq \<Rightarrow> Inr eq
           | None \<Rightarrow> Inl (KeyError equipment_type)))"

subsection \<open>calculate_annual_cost\<close>

text \<open>The default of the parameter \<open>usage_hours\<close>, an \<open>int\<close>.\<close>

definition default_usage_hours :: int where
  "default_usage_hours = 100"

text \<open>
  Lines 104 to 123. The quantity is an \<open>int\<close>; the usage hours are an \<open>int\<close> or a
  \<open>float\<close>. The true division makes \<open>annual_acquisition\<close> a \<open>float\<close>, so the
  per-unit sum and the total are computed in doubles, while \<open>maintenance\<close> and
  \<open>readiness\<close> are products of two \<open>int\<close>s.
\<close>

definition calculate_annual_cost :: "string \<Rightarrow> int \<Rightarrow> number \<Rightarrow> error + cost_dict" where
  "calculate_annual_cost equipment_type quantity usage_hours =
     and_then (lookup_equipment equipment_type) (\<lambda>eq.
     and_then (int_truediv (acquisition_cost eq) (lifespan eq)) (\<lambda>annual_acquisition.
     and_then (num_mul (PyInt (usage_cost_per_hour eq)) usage_hours) (\<lambda>annual_usage.
     and_then (num_add (PyFloat annual_acquisition) (PyInt (maintenance_cost eq))) (\<lambda>s1.
     and_then (num_add s1 (PyInt (readiness_cost eq))) (\<lambda>s2.
     and_then (num_add s2 annual_usage) (\<lambda>s3.
     and_then (num_mul s3 (PyInt quantity)) (\<lambda>total_annual.
     and_then (num_mul (PyFloat annual_acquisition) (PyInt quantity)) (\<lambda>a.
     and_then (num_mul (PyInt (maintenance_cost eq)) (PyInt quantity)) (\<lambda>m.
     and_then (num_mul (PyInt (readiness_cost eq)) (PyInt quantity)) (\<lambda>r.
     and_then (num_mul annual_usage (PyInt quantity)) (\<lambda>u.
       Inr \<lparr>cd_acquisition = a, cd_maintenance = m, cd_readiness = r, cd_usage = u,
            cd_total = total_annual\<rparr>)))))))))))"

subsection \<open>calculate_efficiency_score\<close>

text \<open>
  The loop over \<open>equipment_config.items()\<close>, with its two accumulators, which start
  as the \<open>int\<close> 0.
\<close>

fun score_loop :: "config \<Rightarrow> number \<Rightarrow> number \<Rightarrow> error + (number \<times> number)" where
  "score_loop [] total_efficiency total_response_reduction =
     Inr (total_efficiency, total_response_reduction)"
| "score_loop ((eq_type, quantity) # rest) total_efficiency total_response_reduction =
     and_then (lookup_equipment eq_type) (\<lambda>eq.
     and_then (num_mul (PyFloat (float_literal (efficiency_gain eq))) (PyInt quantity)) (\<lambda>g.
     and_then (num_add total_efficiency g) (\<lambda>total_efficiency'.
     and_then (num_mul (PyFloat (float_literal (response_time_reduction eq))) (PyInt quantity))
       (\<lambda>r.
     and_then (num_add total_response_reduction r) (\<lambda>total_response_reduction'.
       score_loop rest total_efficiency' total_response_reduction')))))"

text \<open>The parameter \<open>usage_hours\<close> is accepted and never read, as in the source.\<close>

definition calculate_efficiency_score :: "config \<Rightarrow> number \<Rightarrow> error + efficiency" where
  "calculate_efficiency_score equipment_config usage_hours =
     and_then (score_loop equipment_config (PyInt 0) (PyInt 0))
       (\<lambda>(total_efficiency, total_response_reduction).
     and_then (num_mul total_efficiency (PyFloat (float_literal 0.6))) (\<lambda>a.
     and_then (num_mul total_response_reduction (PyFloat (float_literal 0.4))) (\<lambda>b.
     and_then (num_add a b) (\<lambda>overall.
       Inr \<lparr>efficiency_score = total_efficiency,
            response_improvement = total_response_reduction,
            overall_score = overall\<rparr>))))"

subsection \<open>get_fallback_solution\<close>

definition get_fallback_solution :: "rat \<Rightarrow> config" where
  "get_fallback_solution budget =
     (if budget < 100000 then
        [(''backup_drone'', 2), (''gps_tracker'', 5), (''portable_gps'', 4)]
      else if budget < 300000 then
        [(''backup_drone'', 3), (''gps_tracker'', 8), (''thermal_camera'', 1),
         (''satellite_comm'', 1), (''rf_detector'', 2), (''portable_gps'', 6)]
      else
        [(''backup_drone'', 4), (''gps_tracker'', 10), (''thermal_camera'', 2),
         (''satellite_comm'', 2), (''rf_detector'', 3), (''portable_gps'', 8),
         (''offroad_vehicle'', 1)])"

subsection \<open>optimize_equipment_selection\<close>

text \<open>
  \<open>{**self.control_equipment, **self.rescue_equipment}\<close>: the entries of the second
  dictionary are stored one by one into a copy of the first.
\<close>

definition all_equipment :: "(string \<times> equipment) list" where
  "all_equipment = fold (\<lambda>(k, v). AList.update k v) rescue_equipment control_equipment"

definition equipment_list :: "string list" where
  "equipment_list = map fst all_equipment"

text \<open>The default of the parameter \<open>priority\<close>.\<close>

definition default_priority :: string where
  "default_priority = ''balanced''"

text \<open>A list comprehension whose element may raise: the first error ends it.\<close>

fun traverse :: "('a \<Rightarrow> error + 'b) \<Rightarrow> 'a list \<Rightarrow> error + 'b list" where
  "traverse f [] = Inr []"
| "traverse f (a # as) =
     (case f a of
        Inl e \<Rightarrow> Inl e
      | Inr b \<Rightarrow> (case traverse f as of Inl e \<Rightarrow> Inl e | Inr bs \<Rightarrow> Inr (b # bs)))"

text \<open>\<open>self.calculate_annual_cost(eq, 1)['total']\<close>, at the default usage hours.\<close>

definition unit_total :: "string \<Rightarrow> error + number" where
  "unit_total eq =
     and_then (calculate_annual_cost eq 1 (PyInt default_usage_hours)) (\<lambda>r. Inr (cd_total r))"

text \<open>
  An element of an array of doubles made from a list of numbers. \<open>linprog\<close> rejects
  an argument with an element that is not finite, with \<open>ValueError\<close>.
\<close>

definition finite_value :: "number \<Rightarrow> error + rat" where
  "finite_value a =
     and_then (to_double a) (\<lambda>d. case d of Finite v \<Rightarrow> Inr v | d' \<Rightarrow> Inl ValueError)"

text \<open>
  Lines 152 to 171: the objective, the one constraint row with its right-hand side, and
  the bounds. \<open>all_equipment[eq]\<close> for a key \<open>eq\<close> of \<open>equipment_list\<close> is the
  value stored with that key, so the comprehensions run over the entries.
\<close>

definition lp_problem :: "rat \<Rightarrow> string \<Rightarrow> error + linear_program" where
  "lp_problem budget_constraint priority =
     and_then
       (if priority = ''cost'' then traverse unit_total equipment_list
        else if priority = ''efficiency'' then
          traverse (\<lambda>(k, eq). num_mul (num_neg (PyFloat (float_literal (efficiency_gain eq))))
                               (PyInt 10000))
                   all_equipment
        else
          traverse (\<lambda>(k, eq). and_then (unit_total k) (\<lambda>t.
                               and_then (num_mul (PyFloat (float_literal (efficiency_gain eq)))
                                                 (PyInt 5000))
                                 (\<lambda>g. num_sub t g)))
                   all_equipment) (\<lambda>c.
     and_then (traverse unit_total equipment_list) (\<lambda>row.
     and_then (traverse finite_value c) (\<lambda>c_array.
     and_then (traverse finite_value row) (\<lambda>row_array.
       Inr \<lparr>lp_c = c_array, lp_A_ub = [row_array], lp_b_ub = [budget_constraint],
            lp_bounds = map (\<lambda>(k, eq). (quantity_min eq, quantity_max eq)) all_equipment\<rparr>))))"

text \<open>
  Lines 174 to 182. The dictionary comprehension reads \<open>result.x[i]\<close> for every index
  of \<open>equipment_list\<close>, which raises \<open>IndexError\<close> when the vector is shorter.
\<close>

definition optimize_equipment_selection ::
    "(linear_program \<Rightarrow> lp_result) \<Rightarrow> rat \<Rightarrow> string \<Rightarrow> error + config" where
  "optimize_equipment_selection linprog budget_constraint priority =
     (case lp_problem budget_constraint priority of
        Inl e \<Rightarrow> Inl e
      | Inr p \<Rightarrow>
          (let result = linprog p in
           if lp_success result then
             (if length (lp_x result) < length equipment_list then Inl IndexError
              else Inr (map (\<lambda>i. (equipment_list ! i, py_round (lp_x result ! i)))
                            (filter (\<lambda>i. lp_x result ! i > 0) [0..<length equipment_list])))
           else Inr (get_fallback_solution budget_constraint)))"

subsection \<open>generate_cost_breakdown\<close>

text \<open>
  The loop of lines 202 to 205, with \<open>cost_data\<close> and the running total, which
  starts as the \<open>int\<close> 0.
\<close>

fun breakdown_loop ::
    "config \<Rightarrow> (string \<times> cost_dict) list \<Rightarrow> number
       \<Rightarrow> error + ((string \<times> cost_dict) list \<times> number)" where
  "breakdown_loop [] cost_data total_annual = Inr (cost_data, total_annual)"
| "breakdown_loop ((eq_type, quantity) # rest) cost_data total_annual =
     (if quantity > 0 then
        and_then (calculate_annual_cost eq_type quantity (PyInt default_usage_hours)) (\<lambda>c.
        and_then (num_add total_annual (cd_total c)) (\<lambda>total_annual'.
          breakdown_loop rest (AList.update eq_type c cost_data) total_annual'))
      else breakdown_loop rest cost_data total_annual)"

text \<open>
  Lines 207 to 215: the total over the years is computed before the dictionary is
  built, in which the scorer is called.
\<close>

definition generate_cost_breakdown :: "config \<Rightarrow> int \<Rightarrow> error + breakdown" where
  "generate_cost_breakdown equipment_config years =
     and_then (breakdown_loop equipment_config [] (PyInt 0)) (\<lambda>(cost_data, total_annual).
     and_then (num_mul total_annual (PyInt years)) (\<lambda>total_cost_5years.
     and_then (calculate_efficiency_score equipment_config (PyInt default_usage_hours)) (\<lambda>m.
       Inr \<lparr>annual_breakdown = cost_data,
            total_annual_cost = total_annual,
            total_5year_cost = total_cost_5years,
            efficiency_metrics = m\<rparr>)))"

subsection \<open>Vocabulary of the properties\<close>

text \<open>
  The annual cost in exact arithmetic: the formula of lines 109 to 115 with no rounding
  and no range. The doubles of \<open>calculate_annual_cost\<close> agree with it wherever every
  intermediate value is an integer that a double holds, which is the case for every
  catalog entry at one unit and the default usage hours.
\<close>

record cost =
  acquisition :: rat
  maintenance :: rat
  readiness :: rat
  usage :: rat
  total :: rat

definition annual_cost :: "equipment \<Rightarrow> int \<Rightarrow> rat \<Rightarrow> cost" where
  "annual_cost eq quantity usage_hours =
     (let annual_acquisition = of_int (acquisition_cost eq) / of_int (lifespan eq);
          annual_maintenance = of_int (maintenance_cost eq);
          annual_readiness = of_int (readiness_cost eq);
          annual_usage = of_int (usage_cost_per_hour eq) * usage_hours;
          total_annual = (annual_acquisition + annual_maintenance + annual_readiness + annual_usage)
                         * of_int quantity
      in \<lparr>acquisition = annual_acquisition * of_int quantity,
          maintenance = annual_maintenance * of_int quantity,
          readiness = annual_readiness * of_int quantity,
          usage = annual_usage * of_int quantity,
          total = total_annual\<rparr>)"

text \<open>
  The \<open>int\<close>s that convert to a \<open>float\<close>: those below the midpoint between the
  largest double and \<open>2 powi 1024\<close>.
\<close>

definition in_float_range :: "int \<Rightarrow> bool" where
  "in_float_range n \<longleftrightarrow> \<bar>rat_of_int n\<bar> < 2 powi 1024 - 2 powi 970"

text \<open>The double that a number is in an operation with a \<open>float\<close>.\<close>

definition double_of :: "number \<Rightarrow> double" where
  "double_of a = (case a of PyInt n \<Rightarrow> fround (of_int n) | PyFloat d \<Rightarrow> d)"

text \<open>
  The two scoring attributes of a catalog key, as the decimal literals of the source,
  read through the lookup of the source. A key outside the catalog has none (the
  functions that read it raise); the sums below are only taken over catalog keys.
\<close>

definition efficiency_gain_of :: "string \<Rightarrow> rat" where
  "efficiency_gain_of k = (case lookup_equipment k of Inl e \<Rightarrow> 0 | Inr eq \<Rightarrow> efficiency_gain eq)"

definition response_time_reduction_of :: "string \<Rightarrow> rat" where
  "response_time_reduction_of k =
     (case lookup_equipment k of Inl e \<Rightarrow> 0 | Inr eq \<Rightarrow> response_time_reduction eq)"

text \<open>
  A sum accumulated in doubles in the order of the entries, from the \<open>int\<close> 0: each
  term is a score times a quantity, rounded, and each addition rounds again.
\<close>

definition score_sum :: "(string \<Rightarrow> rat) \<Rightarrow> config \<Rightarrow> number" where
  "score_sum score cfg =
     (if cfg = [] then PyInt 0
      else PyFloat (foldl fadd (Finite 0)
             (map (\<lambda>(k, q). fmul (float_literal (score k)) (fround (of_int q))) cfg)))"

text \<open>The quantity a plan gives to an item: an absent key stands for quantity 0.\<close>

definition quantity_in :: "config \<Rightarrow> string \<Rightarrow> int" where
  "quantity_in plan k = (case map_of plan k of None \<Rightarrow> 0 | Some q \<Rightarrow> q)"

definition within_bounds :: "config \<Rightarrow> bool" where
  "within_bounds plan =
     list_all (\<lambda>(k, eq). quantity_min eq \<le> quantity_in plan k \<and> quantity_in plan k \<le> quantity_max eq)
       all_equipment"

text \<open>
  The total annual cost of a plan as the budget constraint counts it: per item, the
  annual cost of one unit at the default usage hours, times the quantity.
\<close>

definition plan_cost :: "config \<Rightarrow> rat" where
  "plan_cost plan =
     sum_list (map (\<lambda>(k, eq). total (annual_cost eq 1 (of_int default_usage_hours))
                              * of_int (quantity_in plan k))
                   all_equipment)"

text \<open>
  What a solver promises of the vector it returns with \<open>success\<close>: every component
  within its bounds and every row of \<open>A_ub\<close> within its right-hand side; with
  \<open>integrality=1\<close>, every component an integer.
\<close>

definition feasible :: "linear_program \<Rightarrow> rat list \<Rightarrow> bool" where
  "feasible p xs \<longleftrightarrow>
     list_all2 (\<lambda>(lo, hi) v. of_int lo \<le> v \<and> v \<le> of_int hi) (lp_bounds p) xs \<and>
     list_all2 (\<lambda>row b. sum_list (map2 (*) row xs) \<le> b) (lp_A_ub p) (lp_b_ub p)"

definition integral :: "rat list \<Rightarrow> bool" where
  "integral xs = list_all (\<lambda>v. of_int \<lfloor>v\<rfloor> = v) xs"

text \<open>
  Three solver doubles: one that reports failure, one that reports a fixed vector, and
  one that reports the corner of the bounds that minimises the objective when that
  corner meets every row, and failure otherwise.
\<close>

definition failing_solver :: "linear_program \<Rightarrow> lp_result" where
  "failing_solver p = \<lparr>lp_success = False, lp_x = []\<rparr>"

definition constant_solver :: "rat list \<Rightarrow> linear_program \<Rightarrow> lp_result" where
  "constant_solver xs p = \<lparr>lp_success = True, lp_x = xs\<rparr>"

definition corner_solver :: "linear_program \<Rightarrow> lp_result" where
  "corner_solver p =
     (let xs = map (\<lambda>(c, (lo, hi)). if 0 \<le> c then rat_of_int lo else of_int hi)
                   (zip (lp_c p) (lp_bounds p))
      in \<lparr>lp_success = list_all2 (\<lambda>row b. sum_list (map2 (*) row xs) \<le> b) (lp_A_ub p) (lp_b_ub p),
          lp_x = xs\<rparr>)"

section \<open>Rounding to a double\<close>

lemma floor_log2_bounds:
  assumes "0 < x"
  shows "2 powi (floor_log2 x) \<le> x \<and> x < 2 powi (floor_log2 x + 1)"
proof (cases "1 \<le> x")
  case True
  define n where "n = \<lfloor>x\<rfloor>"
  have n: "0 < n" using True by (simp add: n_def)
  have b1: "1 \<le> bitlen n" using n bitlen_eq_zero_iff [of n] bitlen_nonneg [of n] by linarith
  from bitlen_bounds [OF n] have lo: "2 ^ nat (bitlen n - 1) \<le> n" and hi: "n < 2 ^ nat (bitlen n)"
    by simp_all
  have e: "floor_log2 x = bitlen n - 1" using True by (simp add: floor_log2_def n_def)
  have "(2::rat) powi (bitlen n - 1) = of_int (2 ^ nat (bitlen n - 1))"
    using b1 by (simp add: power_int_def)
  also have "\<dots> \<le> of_int n" using lo by (simp only: of_int_le_iff)
  also have "\<dots> \<le> x" by (simp add: n_def)
  finally have 1: "2 powi (floor_log2 x) \<le> x" by (simp add: e)
  have "n + 1 \<le> 2 ^ nat (bitlen n)" using hi by simp
  then have "(of_int (n + 1) :: rat) \<le> of_int (2 ^ nat (bitlen n))" by (simp only: of_int_le_iff)
  moreover have "x < of_int (n + 1)" unfolding n_def using floor_correct [of x] by simp
  moreover have "(2::rat) powi (bitlen n - 1 + 1) = of_int (2 ^ nat (bitlen n))"
    using b1 by (simp add: power_int_def)
  ultimately have 2: "x < 2 powi (floor_log2 x + 1)" by (simp add: e)
  from 1 2 show ?thesis ..
next
  case False
  then have x1: "x < 1" by simp
  define m where "m = \<lceil>1 / x\<rceil>"
  have y: "1 < 1 / x" using assms x1 by (simp add: field_simps)
  then have m2: "2 \<le> m" unfolding m_def by (simp add: le_ceiling_iff)
  then have m1: "0 < m - 1" by simp
  define b where "b = bitlen (m - 1)"
  have b1: "1 \<le> b" using m1 bitlen_eq_zero_iff [of "m - 1"] bitlen_nonneg [of "m - 1"]
    unfolding b_def by linarith
  from bitlen_bounds [OF m1] have lo: "2 ^ nat (b - 1) \<le> m - 1" and hi: "m - 1 < 2 ^ nat b"
    by (simp_all add: b_def)
  have e: "floor_log2 x = - b" using False by (simp add: floor_log2_def m_def b_def)
  have "1 / x \<le> of_int m" by (simp add: m_def)
  also have "(of_int m :: rat) \<le> of_int (2 ^ nat b)" using hi by (simp only: of_int_le_iff)
  finally have "1 / x \<le> 2 ^ nat b" by simp
  then have "1 \<le> 2 ^ nat b * x" using assms by (simp add: field_simps)
  then have "1 / 2 ^ nat b \<le> x" by (simp add: field_simps)
  moreover have "(2::rat) powi (- b) = 1 / 2 ^ nat b"
    using b1 by (simp add: power_int_def field_simps)
  ultimately have 1: "2 powi (floor_log2 x) \<le> x" by (simp add: e)
  have "(of_int (2 ^ nat (b - 1)) :: rat) \<le> of_int (m - 1)" using lo by (simp only: of_int_le_iff)
  moreover have "of_int (m - 1) < 1 / x"
    unfolding m_def using ceiling_correct [of "1 / x"] by simp
  ultimately have "2 ^ nat (b - 1) < 1 / x" by simp
  then have "2 ^ nat (b - 1) * x < 1" using assms by (simp add: field_simps)
  then have "x < 1 / 2 ^ nat (b - 1)" by (simp add: field_simps)
  moreover have "(2::rat) powi (- b + 1) = 1 / 2 ^ nat (b - 1)"
  proof (cases "b = 1")
    case True
    then show ?thesis by simp
  next
    case False
    with b1 have "- b + 1 < 0" by simp
    then show ?thesis by (simp add: power_int_def field_simps nat_diff_distrib)
  qed
  ultimately have 2: "x < 2 powi (floor_log2 x + 1)" by (simp add: e)
  from 1 2 show ?thesis ..
qed

lemma floor_log2_unique:
  assumes "2 powi e \<le> x" and "x < 2 powi (e + 1)"
  shows "floor_log2 x = e"
proof -
  have x: "0 < x" using assms(1) zero_less_power_int [of "2::rat" e] by linarith
  from floor_log2_bounds [OF x] have lo: "2 powi (floor_log2 x) \<le> x"
    and hi: "x < 2 powi (floor_log2 x + 1)" by simp_all
  have "(2::rat) powi e < 2 powi (floor_log2 x + 1)" using assms(1) hi by linarith
  then have 1: "e < floor_log2 x + 1"
    using power_int_increasing [of "floor_log2 x + 1" e "2::rat"] by (cases "e < floor_log2 x + 1") auto
  have "(2::rat) powi (floor_log2 x) < 2 powi (e + 1)" using lo assms(2) by linarith
  then have 2: "floor_log2 x < e + 1"
    using power_int_increasing [of "e + 1" "floor_log2 x" "2::rat"] by (cases "floor_log2 x < e + 1") auto
  from 1 2 show ?thesis by simp
qed


lemma py_round_of_int: "py_round (of_int n) = n"
  by (simp add: py_round_def)

lemma py_round_near:
  "v - 1 / 2 \<le> of_int (py_round v) \<and> of_int (py_round v) \<le> v + 1 / 2"
proof -
  have f: "of_int \<lfloor>v\<rfloor> \<le> v" "v < of_int \<lfloor>v\<rfloor> + 1" using floor_correct [of v] by simp_all
  consider "v - of_int \<lfloor>v\<rfloor> < 1 / 2" | "1 / 2 < v - of_int \<lfloor>v\<rfloor>"
    | "v - of_int \<lfloor>v\<rfloor> = 1 / 2" by linarith
  then show ?thesis
  proof cases
    case 1
    then have "rat_of_int (py_round v) = of_int \<lfloor>v\<rfloor>" by (simp add: py_round_def Let_def)
    then show ?thesis using f 1 by linarith
  next
    case 2
    then have "rat_of_int (py_round v) = of_int \<lfloor>v\<rfloor> + 1" by (simp add: py_round_def Let_def)
    then show ?thesis using f 2 by linarith
  next
    case 3
    then have "rat_of_int (py_round v) = of_int \<lfloor>v\<rfloor>
        \<or> rat_of_int (py_round v) = of_int \<lfloor>v\<rfloor> + 1"
      by (simp add: py_round_def Let_def)
    then show ?thesis using f 3 by linarith
  qed
qed

lemma py_round_ge: "of_int a \<le> v \<Longrightarrow> a \<le> py_round v"
proof -
  assume a: "of_int a \<le> v"
  then have "a \<le> \<lfloor>v\<rfloor>" by (simp add: le_floor_iff)
  then show ?thesis by (auto simp: py_round_def Let_def)
qed

lemma py_round_le: "v \<le> of_int b \<Longrightarrow> py_round v \<le> b"
proof -
  assume b: "v \<le> of_int b"
  show ?thesis
  proof (cases "v = of_int b")
    case True
    then show ?thesis by (simp add: py_round_of_int)
  next
    case False
    with b have "v < of_int b" by simp
    then have "\<lfloor>v\<rfloor> < b" by (simp add: floor_less_iff)
    then show ?thesis by (auto simp: py_round_def Let_def)
  qed
qed

lemma fround_normal:
  assumes "2 powi e \<le> \<bar>x\<bar>" and "\<bar>x\<bar> < 2 powi (e + 1)" and "- 1022 \<le> e"
  shows "fround x =
     (let y = of_int (py_round (x / 2 powi (e - 52))) * 2 powi (e - 52)
      in if 2 powi 1024 \<le> \<bar>y\<bar> then (if 0 < x then PosInf else NegInf) else Finite y)"
proof -
  have "0 < \<bar>x\<bar>" using assms(1) zero_less_power_int [of "2::rat" e] by linarith
  then have x: "x \<noteq> 0" by simp
  have "floor_log2 \<bar>x\<bar> = e" using assms(1,2) by (rule floor_log2_unique)
  with x assms(3) show ?thesis by (simp add: fround_def Let_def max_def)
qed

lemma fround_exact:
  assumes x: "x = of_int m * 2 powi k" and m: "\<bar>m\<bar> < 2 ^ 53"
    and lo: "2 powi (- 1022) \<le> \<bar>x\<bar>" and hi: "\<bar>x\<bar> < 2 powi 1024"
  shows "fround x = Finite x"
proof -
  have pos: "0 < \<bar>x\<bar>" using lo zero_less_power_int [of "2::rat" "- 1022"] by linarith
  define e where "e = floor_log2 \<bar>x\<bar>"
  from floor_log2_bounds [OF pos] have e_lo: "2 powi e \<le> \<bar>x\<bar>" and e_hi: "\<bar>x\<bar> < 2 powi (e + 1)"
    by (simp_all add: e_def)
  have e_min: "- 1022 \<le> e"
  proof (rule ccontr)
    assume "\<not> - 1022 \<le> e"
    then have "e + 1 \<le> - 1022" by simp
    then have "(2::rat) powi (e + 1) \<le> 2 powi (- 1022)" by (rule power_int_increasing) simp
    with e_hi lo show False by linarith
  qed
  have "\<bar>x\<bar> = of_int \<bar>m\<bar> * 2 powi k" by (simp add: x abs_mult)
  also have "\<dots> < of_int (2 ^ 53) * 2 powi k"
    using m by (intro mult_strict_right_mono) (simp_all only: of_int_less_iff zero_less_power_int zero_less_numeral)
  also have "\<dots> = 2 powi (53 + k)" by (simp add: power_int_add)
  finally have "(2::rat) powi e < 2 powi (53 + k)" using e_lo by linarith
  then have "e < 53 + k"
    using power_int_increasing [of "53 + k" e "2::rat"] by (cases "e < 53 + k") auto
  then have d: "0 \<le> k - e + 52" by simp
  have "x / 2 powi (e - 52) = of_int m * (2 powi k / 2 powi (e - 52))" by (simp add: x)
  also have "2 powi k / 2 powi (e - 52) = (2::rat) powi (k - e + 52)"
    by (simp add: power_int_diff [symmetric] algebra_simps)
  also have "\<dots> = of_int (2 ^ nat (k - e + 52))" using d by (simp add: power_int_def)
  finally have q: "x / 2 powi (e - 52) = of_int (m * 2 ^ nat (k - e + 52))" by simp
  have "of_int (py_round (x / 2 powi (e - 52))) * 2 powi (e - 52) = x"
    unfolding q py_round_of_int unfolding q [symmetric] by simp
  with fround_normal [OF e_lo e_hi e_min] hi show ?thesis by (simp add: Let_def)
qed

lemma fround_of_int:
  assumes "\<bar>n\<bar> \<le> 2 ^ 53"
  shows "fround (of_int n) = Finite (of_int n)"
proof (cases "n = 0")
  case True
  then show ?thesis by (simp add: fround_def)
next
  case False
  then have "1 \<le> \<bar>n\<bar>" by linarith
  then have "rat_of_int 1 \<le> of_int \<bar>n\<bar>" by (simp only: of_int_le_iff)
  then have one: "(1::rat) \<le> \<bar>of_int n\<bar>" by simp
  have "(2::rat) powi (- 1022) \<le> 2 powi 0" by (rule power_int_increasing) simp_all
  with one have lo: "2 powi (- 1022) \<le> \<bar>rat_of_int n\<bar>" by simp
  have "rat_of_int \<bar>n\<bar> \<le> of_int (2 ^ 53)" using assms by (simp only: of_int_le_iff)
  then have "\<bar>rat_of_int n\<bar> \<le> 2 ^ 53" by simp
  moreover have "(2::rat) ^ 53 < 2 powi 1024" by simp
  ultimately have hi: "\<bar>rat_of_int n\<bar> < 2 powi 1024" by linarith
  show ?thesis
  proof (cases "\<bar>n\<bar> = 2 ^ 53")
    case True
    then have "n = 2 ^ 53 \<or> n = - (2 ^ 53)" by linarith
    then have xeq: "rat_of_int n = of_int (if 0 < n then 1 else - 1) * 2 powi 53" by auto
    have mm: "\<bar>if 0 < n then 1 else - 1 :: int\<bar> < 2 ^ 53" by simp
    show ?thesis by (rule fround_exact [OF xeq mm lo hi])
  next
    case False
    with assms have "\<bar>n\<bar> < 2 ^ 53" by simp
    then have mm: "\<bar>n\<bar> < 2 ^ 53" .
    have xeq: "rat_of_int n = of_int n * 2 powi 0" by simp
    show ?thesis by (rule fround_exact [OF xeq mm lo hi])
  qed
qed

lemma fround_overflow:
  assumes "2 powi 1024 \<le> \<bar>x\<bar>"
  shows "fround x = (if 0 < x then PosInf else NegInf)"
proof -
  have pos: "0 < \<bar>x\<bar>" using assms zero_less_power_int [of "2::rat" 1024] by linarith
  define e where "e = floor_log2 \<bar>x\<bar>"
  from floor_log2_bounds [OF pos] have e_lo: "2 powi e \<le> \<bar>x\<bar>" and e_hi: "\<bar>x\<bar> < 2 powi (e + 1)"
    by (simp_all add: e_def)
  have "(2::rat) powi 1024 < 2 powi (e + 1)" using assms e_hi by linarith
  then have e: "1024 \<le> e"
    using power_int_increasing [of "e + 1" 1024 "2::rat"] by (cases "1024 < e + 1") auto
  define u :: rat where "u = 2 powi (e - 52)"
  have u: "0 < u" by (simp add: u_def)
  have eu: "2 powi e = of_int (2 ^ 52) * u"
    by (simp add: u_def power_int_diff)
  define y where "y = of_int (py_round (x / u)) * u"
  have "2 powi e \<le> \<bar>y\<bar>"
  proof (cases "0 < x")
    case True
    then have "of_int (2 ^ 52) \<le> x / u" using e_lo u by (simp add: eu pos_le_divide_eq)
    then have "2 ^ 52 \<le> py_round (x / u)" by (rule py_round_ge)
    then have "rat_of_int (2 ^ 52) \<le> of_int (py_round (x / u))" by (simp only: of_int_le_iff)
    then have "of_int (2 ^ 52) * u \<le> y" unfolding y_def using u by (intro mult_right_mono) simp_all
    then show ?thesis by (simp add: eu)
  next
    case False
    then have "x / u \<le> of_int (- (2 ^ 52))" using e_lo u by (simp add: eu pos_divide_le_eq)
    then have "py_round (x / u) \<le> - (2 ^ 52)" by (rule py_round_le)
    then have "of_int (py_round (x / u)) \<le> rat_of_int (- (2 ^ 52))" by (simp only: of_int_le_iff)
    then have "y \<le> of_int (- (2 ^ 52)) * u" unfolding y_def using u by (intro mult_right_mono) simp_all
    then show ?thesis by (simp add: eu)
  qed
  moreover have "(2::rat) powi 1024 \<le> 2 powi e" using e by (intro power_int_increasing) simp_all
  ultimately have "2 powi 1024 \<le> \<bar>y\<bar>" by linarith
  moreover have "- 1022 \<le> e" using e by simp
  ultimately show ?thesis
    using fround_normal [OF e_lo e_hi] by (simp add: Let_def y_def u_def)
qed


lemma fround_finite:
  assumes "\<bar>x\<bar> < 2 powi 1024 - 2 powi 970"
  shows "\<exists>v. fround x = Finite v"
proof (cases "x = 0")
  case True
  then show ?thesis by (simp add: fround_def)
next
  case False
  then have pos: "0 < \<bar>x\<bar>" by simp
  define e where "e = max (floor_log2 \<bar>x\<bar>) (- 1022)"
  define u :: rat where "u = 2 powi (e - 52)"
  define y where "y = of_int (py_round (x / u)) * u"
  have fr: "fround x = (if 2 powi 1024 \<le> \<bar>y\<bar> then (if 0 < x then PosInf else NegInf) else Finite y)"
    using False by (simp add: fround_def Let_def e_def u_def y_def)
  have u: "0 < u" by (simp add: u_def)
  from floor_log2_bounds [OF pos] have "2 powi (floor_log2 \<bar>x\<bar>) \<le> \<bar>x\<bar>" by simp
  also have "\<bar>x\<bar> < 2 powi 1024" using assms zero_less_power_int [of "2::rat" 970] by linarith
  finally have "floor_log2 \<bar>x\<bar> < 1024"
    using power_int_increasing [of 1024 "floor_log2 \<bar>x\<bar>" "2::rat"]
    by (cases "floor_log2 \<bar>x\<bar> < 1024") auto
  then have "e - 52 \<le> 971" by (simp add: e_def)
  then have "u \<le> 2 powi 971" unfolding u_def by (rule power_int_increasing) simp
  then have u_hi: "u / 2 \<le> 2 powi 970" by simp
  have "\<bar>rat_of_int (py_round (x / u))\<bar> \<le> \<bar>x / u\<bar> + 1 / 2"
    using py_round_near [of "x / u"] by linarith
  then have "\<bar>rat_of_int (py_round (x / u))\<bar> * u \<le> (\<bar>x / u\<bar> + 1 / 2) * u"
    using u by (intro mult_right_mono) simp_all
  also have "\<dots> = \<bar>x\<bar> + u / 2" using u by (simp add: field_simps abs_mult)
  finally have "\<bar>y\<bar> \<le> \<bar>x\<bar> + u / 2" using u by (simp add: y_def abs_mult)
  with u_hi assms have "\<bar>y\<bar> < 2 powi 1024" by linarith
  with fr show ?thesis by simp
qed


lemma py_round_eqI:
  assumes "\<bar>v - of_int n\<bar> < 1 / 2 \<or> (\<bar>v - of_int n\<bar> = 1 / 2 \<and> even n)"
  shows "py_round v = n"
proof -
  consider (a) "of_int n \<le> v" "v - of_int n < 1 / 2"
    | (b) "v < of_int n" "of_int n - v < 1 / 2"
    | (c) "v - of_int n = 1 / 2" "even n"
    | (d) "of_int n - v = 1 / 2" "even n"
    using assms by (cases "of_int n \<le> v") (auto simp: abs_if split: if_splits)
  then show ?thesis
  proof cases
    case a
    then have "\<lfloor>v\<rfloor> = n" by (intro floor_unique) simp_all
    with a show ?thesis by (simp add: py_round_def Let_def)
  next
    case b
    then have f: "\<lfloor>v\<rfloor> = n - 1" by (intro floor_unique) simp_all
    have "1 / 2 < v - of_int (n - 1)" using b by simp
    then show ?thesis unfolding py_round_def Let_def f by simp
  next
    case c
    then have f: "\<lfloor>v\<rfloor> = n" by (intro floor_unique) simp_all
    have "v - of_int n = 1 / 2" using c by simp
    with c(2) show ?thesis unfolding py_round_def Let_def f by simp
  next
    case d
    then have f: "\<lfloor>v\<rfloor> = n - 1" by (intro floor_unique) simp_all
    have "v - of_int (n - 1) = 1 / 2" using d by simp
    with d(2) show ?thesis unfolding py_round_def Let_def f by simp
  qed
qed

lemma fround_eqI:
  assumes "2 powi e \<le> \<bar>x\<bar>" and "\<bar>x\<bar> < 2 powi (e + 1)" and "- 1022 \<le> e"
    and "\<bar>x / 2 powi (e - 52) - of_int m\<bar> < 1 / 2
         \<or> (\<bar>x / 2 powi (e - 52) - of_int m\<bar> = 1 / 2 \<and> even m)"
    and "y = of_int m * 2 powi (e - 52)" and "\<bar>y\<bar> < 2 powi 1024"
  shows "fround x = Finite y"
  using fround_normal [OF assms(1-3)] py_round_eqI [OF assms(4)] assms(5,6)
  by (simp add: Let_def)

section \<open>Facts about the catalog\<close>

lemma all_equipment_eq:
  "all_equipment =
     [(''backup_drone'', backup_drone), (''thermal_camera'', thermal_camera),
      (''gps_tracker'', gps_tracker), (''satellite_comm'', satellite_comm),
      (''rf_detector'', rf_detector), (''portable_gps'', portable_gps),
      (''offroad_vehicle'', offroad_vehicle)]"
  by (simp add: all_equipment_def control_equipment_def rescue_equipment_def)

lemma equipment_list_eq:
  "equipment_list =
     [''backup_drone'', ''thermal_camera'', ''gps_tracker'', ''satellite_comm'',
      ''rf_detector'', ''portable_gps'', ''offroad_vehicle'']"
  by (simp add: equipment_list_def all_equipment_eq)

lemma lookup_known:
  "(k, eq) \<in> set all_equipment \<Longrightarrow> lookup_equipment k = Inr eq"
  unfolding all_equipment_eq
  by (auto simp: lookup_equipment_def control_equipment_def rescue_equipment_def)

lemma lookup_unknown:
  "k \<notin> set equipment_list \<Longrightarrow> lookup_equipment k = Inl (KeyError k)"
  unfolding equipment_list_eq
  by (simp add: lookup_equipment_def control_equipment_def rescue_equipment_def)

lemma known_entry: "k \<in> set equipment_list \<Longrightarrow> \<exists>eq. (k, eq) \<in> set all_equipment"
  by (auto simp: equipment_list_def)

lemma catalog_lifespan: "(k, eq) \<in> set all_equipment \<Longrightarrow> 0 < lifespan eq"
  unfolding all_equipment_eq
  by (auto simp: backup_drone_def thermal_camera_def gps_tracker_def satellite_comm_def
      rf_detector_def portable_gps_def offroad_vehicle_def)

section \<open>Integers that a double holds\<close>

lemma and_then_Inr [simp]: "and_then (Inr v) f = f v"
  by (simp add: and_then_def)

lemma and_then_Inl [simp]: "and_then (Inl e) f = Inl e"
  by (simp add: and_then_def)

lemma to_double_int:
  "\<bar>n\<bar> \<le> 2 ^ 53 \<Longrightarrow> to_double (PyInt n) = Inr (Finite (of_int n))"
  by (simp add: to_double_def int_to_double_def fround_of_int)

lemma to_double_float [simp]: "to_double (PyFloat d) = Inr d"
  by (simp add: to_double_def)

lemma to_double_in_range:
  "in_float_range n \<Longrightarrow> to_double (PyInt n) = Inr (double_of (PyInt n))"
proof -
  assume "in_float_range n"
  then obtain v where "fround (of_int n) = Finite v"
    using fround_finite [of "of_int n"] by (auto simp: in_float_range_def)
  then show ?thesis by (simp add: to_double_def int_to_double_def double_of_def)
qed

lemma num_mul_ints [simp]: "num_mul (PyInt m) (PyInt n) = Inr (PyInt (m * n))"
  by (simp add: num_mul_def)

lemma num_add_ints [simp]: "num_add (PyInt m) (PyInt n) = Inr (PyInt (m + n))"
  by (simp add: num_add_def)

lemma num_add_exact:
  assumes "\<bar>a + b\<bar> \<le> 2 ^ 53" and "\<bar>b\<bar> \<le> 2 ^ 53"
  shows "num_add (PyFloat (Finite (of_int a))) (PyInt b) = Inr (PyFloat (Finite (of_int (a + b))))"
  using fround_of_int [OF assms(1)] by (simp add: num_add_def to_double_int [OF assms(2)])

lemma num_mul_exact:
  assumes "\<bar>a * b\<bar> \<le> 2 ^ 53" and "\<bar>b\<bar> \<le> 2 ^ 53"
  shows "num_mul (PyFloat (Finite (of_int a))) (PyInt b) = Inr (PyFloat (Finite (of_int (a * b))))"
  using fround_of_int [OF assms(1)] by (simp add: num_mul_def to_double_int [OF assms(2)])

lemma int_truediv_exact:
  assumes "n \<noteq> 0" and "n dvd m" and "\<bar>m div n\<bar> \<le> 2 ^ 53"
  shows "int_truediv m n = Inr (Finite (of_int (m div n)))"
proof -
  from assms(2) obtain k where k: "m = n * k" by (auto simp: dvd_def)
  then have "rat_of_int m / of_int n = of_int (m div n)" using assms(1) by simp
  with fround_of_int [OF assms(3)] show ?thesis by (simp add: int_truediv_def assms(1))
qed

lemma catalog_costs:
  assumes "(k, eq) \<in> set all_equipment"
  shows "0 < lifespan eq \<and> lifespan eq dvd acquisition_cost eq
    \<and> 1 \<le> acquisition_cost eq div lifespan eq \<and> 0 \<le> maintenance_cost eq
    \<and> 0 \<le> readiness_cost eq \<and> 0 \<le> usage_cost_per_hour eq"
  using assms unfolding all_equipment_eq
  by (auto simp: backup_drone_def thermal_camera_def gps_tracker_def satellite_comm_def
      rf_detector_def portable_gps_def offroad_vehicle_def)

text \<open>The unit cost of a catalog entry at integer usage hours, as an integer.\<close>

lemma annual_cost_int:
  assumes "(k, eq) \<in> set all_equipment"
  shows "total (annual_cost eq q (of_int h)) =
     of_int ((acquisition_cost eq div lifespan eq + maintenance_cost eq + readiness_cost eq
              + usage_cost_per_hour eq * h) * q)"
proof -
  from catalog_costs [OF assms] have l: "lifespan eq \<noteq> 0" and d: "lifespan eq dvd acquisition_cost eq"
    by simp_all
  from d obtain c where c: "acquisition_cost eq = lifespan eq * c" by (auto simp: dvd_def)
  have "rat_of_int (acquisition_cost eq) / of_int (lifespan eq)
      = of_int (acquisition_cost eq div lifespan eq)"
    using l by (simp add: c)
  then show ?thesis by (simp add: annual_cost_def Let_def)
qed

lemma calculate_annual_cost_exact:
  assumes eq: "(k, eq) \<in> set all_equipment" and h: "0 \<le> h"
    and unit: "total (annual_cost eq 1 (of_int h)) \<le> 2 ^ 53"
    and whole: "\<bar>total (annual_cost eq q (of_int h))\<bar> \<le> 2 ^ 53"
  shows "calculate_annual_cost k q (PyInt h) =
     Inr \<lparr>cd_acquisition = PyFloat (Finite (acquisition (annual_cost eq q (of_int h)))),
          cd_maintenance = PyInt (maintenance_cost eq * q),
          cd_readiness = PyInt (readiness_cost eq * q),
          cd_usage = PyInt (usage_cost_per_hour eq * h * q),
          cd_total = PyFloat (Finite (total (annual_cost eq q (of_int h))))\<rparr>"
proof -
  define a where "a = acquisition_cost eq div lifespan eq"
  define m where "m = maintenance_cost eq"
  define r where "r = readiness_cost eq"
  define u where "u = usage_cost_per_hour eq * h"
  define T where "T = a + m + r + u"
  from catalog_costs [OF eq] have l: "lifespan eq \<noteq> 0" and d: "lifespan eq dvd acquisition_cost eq"
    and a: "1 \<le> a" and m: "0 \<le> m" and r: "0 \<le> r" and u0: "0 \<le> usage_cost_per_hour eq"
    by (simp_all add: a_def m_def r_def)
  have u: "0 \<le> u" using u0 h by (simp add: u_def)
  have T1: "rat_of_int T \<le> of_int (2 ^ 53)"
    using unit annual_cost_int [OF eq, of 1 h] by (simp add: T_def a_def m_def r_def u_def)
  have Tq: "rat_of_int \<bar>T * q\<bar> \<le> of_int (2 ^ 53)"
    using whole annual_cost_int [OF eq, of q h] by (simp add: T_def a_def m_def r_def u_def)
  have T1': "T \<le> 2 ^ 53" using T1 by (simp only: of_int_le_iff)
  have Tq': "\<bar>T * q\<bar> \<le> 2 ^ 53" using Tq by (simp only: of_int_le_iff)
  have Tpos: "1 \<le> T" using a m r u by (simp add: T_def)
  have "1 * \<bar>q\<bar> \<le> T * \<bar>q\<bar>" using Tpos by (intro mult_right_mono) simp_all
  then have qT: "\<bar>q\<bar> \<le> \<bar>T * q\<bar>" using Tpos by (simp add: abs_mult)
  have aT: "a \<le> T" using m r u by (simp add: T_def)
  have "a * \<bar>q\<bar> \<le> T * \<bar>q\<bar>" using aT by (intro mult_right_mono) simp_all
  then have aq: "\<bar>a * q\<bar> \<le> \<bar>T * q\<bar>" using a Tpos by (simp add: abs_mult)
  have acq: "acquisition (annual_cost eq q (of_int h)) = of_int (a * q)"
  proof -
    from d obtain c where c: "acquisition_cost eq = lifespan eq * c" by (auto simp: dvd_def)
    have "rat_of_int (acquisition_cost eq) / of_int (lifespan eq) = of_int a"
      using l by (simp add: c a_def)
    then show ?thesis by (simp add: annual_cost_def Let_def)
  qed
  have tot: "total (annual_cost eq q (of_int h)) = of_int (T * q)"
    using annual_cost_int [OF eq, of q h] by (simp add: T_def a_def m_def r_def u_def)
  have s0: "int_truediv (acquisition_cost eq) (lifespan eq) = Inr (Finite (of_int a))"
    unfolding a_def using l d a aT T1' by (intro int_truediv_exact) (simp_all add: a_def)
  have s1: "num_add (PyFloat (Finite (of_int a))) (PyInt m) = Inr (PyFloat (Finite (of_int (a + m))))"
    using a m r u T1' by (intro num_add_exact) (simp_all add: T_def)
  have s2: "num_add (PyFloat (Finite (of_int (a + m)))) (PyInt r)
      = Inr (PyFloat (Finite (of_int (a + m + r))))"
    using a m r u T1' by (intro num_add_exact) (simp_all add: T_def)
  have s3: "num_add (PyFloat (Finite (of_int (a + m + r)))) (PyInt u) = Inr (PyFloat (Finite (of_int T)))"
    unfolding T_def using a m r u T1' by (intro num_add_exact) (simp_all add: T_def)
  have s4: "num_mul (PyFloat (Finite (of_int T))) (PyInt q) = Inr (PyFloat (Finite (of_int (T * q))))"
    using Tq' qT by (intro num_mul_exact) simp_all
  have s5: "num_mul (PyFloat (Finite (of_int a))) (PyInt q) = Inr (PyFloat (Finite (of_int (a * q))))"
    using Tq' qT aq by (intro num_mul_exact) simp_all
  show ?thesis
    unfolding calculate_annual_cost_def lookup_known [OF eq] and_then_Inr s0
      m_def [symmetric] r_def [symmetric] num_mul_ints u_def [symmetric] s1 s2 s3 s4 s5 acq tot
    by (simp add: u_def)
qed

section \<open>The linear program\<close>

text \<open>The scores of the catalog as doubles, and the two products that the objective takes of them.\<close>

lemma gain_backup_drone:
  "float_literal (efficiency_gain backup_drone) = Finite (7656119366529843 / 9007199254740992)"
  apply (simp add: float_literal_def backup_drone_def)
  apply (rule fround_eqI [where e = "- 1" and m = 7656119366529843])
       apply simp_all
  done

lemma efficiency_coefficient_backup_drone:
  "num_mul (num_neg (PyFloat (float_literal (efficiency_gain backup_drone)))) (PyInt 10000)
     = Inr (PyFloat (Finite (- (efficiency_gain backup_drone * 10000))))"
  apply (simp add: gain_backup_drone num_mul_def num_neg_def to_double_int)
  apply (simp add: backup_drone_def)
  apply (rule fround_eqI [where e = 13 and m = "- 4672924418048000"])
       apply simp_all
  done

lemma balanced_term_backup_drone:
  "num_mul (PyFloat (float_literal (efficiency_gain backup_drone))) (PyInt 5000)
     = Inr (PyFloat (Finite (efficiency_gain backup_drone * 5000)))"
  apply (simp add: gain_backup_drone num_mul_def to_double_int)
  apply (simp add: backup_drone_def)
  apply (rule fround_eqI [where e = 12 and m = 4672924418048000])
       apply simp_all
  done

lemma gain_thermal_camera:
  "float_literal (efficiency_gain thermal_camera) = Finite (5854679515581645 / 9007199254740992)"
  apply (simp add: float_literal_def thermal_camera_def)
  apply (rule fround_eqI [where e = "- 1" and m = 5854679515581645])
       apply simp_all
  done

lemma efficiency_coefficient_thermal_camera:
  "num_mul (num_neg (PyFloat (float_literal (efficiency_gain thermal_camera)))) (PyInt 10000)
     = Inr (PyFloat (Finite (- (efficiency_gain thermal_camera * 10000))))"
  apply (simp add: gain_thermal_camera num_mul_def num_neg_def to_double_int)
  apply (simp add: thermal_camera_def)
  apply (rule fround_eqI [where e = 12 and m = "- 7146825580544000"])
       apply simp_all
  done

lemma balanced_term_thermal_camera:
  "num_mul (PyFloat (float_literal (efficiency_gain thermal_camera))) (PyInt 5000)
     = Inr (PyFloat (Finite (efficiency_gain thermal_camera * 5000)))"
  apply (simp add: gain_thermal_camera num_mul_def to_double_int)
  apply (simp add: thermal_camera_def)
  apply (rule fround_eqI [where e = 11 and m = 7146825580544000])
       apply simp_all
  done

lemma gain_gps_tracker:
  "float_literal (efficiency_gain gps_tracker) = Finite (3 / 4)"
  apply (simp add: float_literal_def gps_tracker_def)
  apply (rule fround_eqI [where e = "- 1" and m = 6755399441055744])
       apply simp_all
  done

lemma efficiency_coefficient_gps_tracker:
  "num_mul (num_neg (PyFloat (float_literal (efficiency_gain gps_tracker)))) (PyInt 10000)
     = Inr (PyFloat (Finite (- (efficiency_gain gps_tracker * 10000))))"
  apply (simp add: gain_gps_tracker num_mul_def num_neg_def to_double_int)
  apply (simp add: gps_tracker_def)
  apply (rule fround_eqI [where e = 12 and m = "- 8246337208320000"])
       apply simp_all
  done

lemma balanced_term_gps_tracker:
  "num_mul (PyFloat (float_literal (efficiency_gain gps_tracker))) (PyInt 5000)
     = Inr (PyFloat (Finite (efficiency_gain gps_tracker * 5000)))"
  apply (simp add: gain_gps_tracker num_mul_def to_double_int)
  apply (simp add: gps_tracker_def)
  apply (rule fround_eqI [where e = 11 and m = 8246337208320000])
       apply simp_all
  done

lemma gain_satellite_comm:
  "float_literal (efficiency_gain satellite_comm) = Finite (2476979795053773 / 4503599627370496)"
  apply (simp add: float_literal_def satellite_comm_def)
  apply (rule fround_eqI [where e = "- 1" and m = 4953959590107546])
       apply simp_all
  done

lemma efficiency_coefficient_satellite_comm:
  "num_mul (num_neg (PyFloat (float_literal (efficiency_gain satellite_comm)))) (PyInt 10000)
     = Inr (PyFloat (Finite (- (efficiency_gain satellite_comm * 10000))))"
  apply (simp add: gain_satellite_comm num_mul_def num_neg_def to_double_int)
  apply (simp add: satellite_comm_def)
  apply (rule fround_eqI [where e = 12 and m = "- 6047313952768000"])
       apply simp_all
  done

lemma balanced_term_satellite_comm:
  "num_mul (PyFloat (float_literal (efficiency_gain satellite_comm))) (PyInt 5000)
     = Inr (PyFloat (Finite (efficiency_gain satellite_comm * 5000)))"
  apply (simp add: gain_satellite_comm num_mul_def to_double_int)
  apply (simp add: satellite_comm_def)
  apply (rule fround_eqI [where e = 11 and m = 6047313952768000])
       apply simp_all
  done

lemma gain_rf_detector:
  "float_literal (efficiency_gain rf_detector) = Finite (5404319552844595 / 9007199254740992)"
  apply (simp add: float_literal_def rf_detector_def)
  apply (rule fround_eqI [where e = "- 1" and m = 5404319552844595])
       apply simp_all
  done

lemma efficiency_coefficient_rf_detector:
  "num_mul (num_neg (PyFloat (float_literal (efficiency_gain rf_detector)))) (PyInt 10000)
     = Inr (PyFloat (Finite (- (efficiency_gain rf_detector * 10000))))"
  apply (simp add: gain_rf_detector num_mul_def num_neg_def to_double_int)
  apply (simp add: rf_detector_def)
  apply (rule fround_eqI [where e = 12 and m = "- 6597069766656000"])
       apply simp_all
  done

lemma balanced_term_rf_detector:
  "num_mul (PyFloat (float_literal (efficiency_gain rf_detector))) (PyInt 5000)
     = Inr (PyFloat (Finite (efficiency_gain rf_detector * 5000)))"
  apply (simp add: gain_rf_detector num_mul_def to_double_int)
  apply (simp add: rf_detector_def)
  apply (rule fround_eqI [where e = 11 and m = 6597069766656000])
       apply simp_all
  done

lemma gain_portable_gps:
  "float_literal (efficiency_gain portable_gps) = Finite (8106479329266893 / 18014398509481984)"
  apply (simp add: float_literal_def portable_gps_def)
  apply (rule fround_eqI [where e = "- 2" and m = 8106479329266893])
       apply simp_all
  done

lemma efficiency_coefficient_portable_gps:
  "num_mul (num_neg (PyFloat (float_literal (efficiency_gain portable_gps)))) (PyInt 10000)
     = Inr (PyFloat (Finite (- (efficiency_gain portable_gps * 10000))))"
  apply (simp add: gain_portable_gps num_mul_def num_neg_def to_double_int)
  apply (simp add: portable_gps_def)
  apply (rule fround_eqI [where e = 12 and m = "- 4947802324992000"])
       apply simp_all
  done

lemma balanced_term_portable_gps:
  "num_mul (PyFloat (float_literal (efficiency_gain portable_gps))) (PyInt 5000)
     = Inr (PyFloat (Finite (efficiency_gain portable_gps * 5000)))"
  apply (simp add: gain_portable_gps num_mul_def to_double_int)
  apply (simp add: portable_gps_def)
  apply (rule fround_eqI [where e = 11 and m = 4947802324992000])
       apply simp_all
  done

lemma gain_offroad_vehicle:
  "float_literal (efficiency_gain offroad_vehicle) = Finite (3152519739159347 / 4503599627370496)"
  apply (simp add: float_literal_def offroad_vehicle_def)
  apply (rule fround_eqI [where e = "- 1" and m = 6305039478318694])
       apply simp_all
  done

lemma efficiency_coefficient_offroad_vehicle:
  "num_mul (num_neg (PyFloat (float_literal (efficiency_gain offroad_vehicle)))) (PyInt 10000)
     = Inr (PyFloat (Finite (- (efficiency_gain offroad_vehicle * 10000))))"
  apply (simp add: gain_offroad_vehicle num_mul_def num_neg_def to_double_int)
  apply (simp add: offroad_vehicle_def)
  apply (rule fround_eqI [where e = 12 and m = "- 7696581394432000"])
       apply simp_all
  done

lemma balanced_term_offroad_vehicle:
  "num_mul (PyFloat (float_literal (efficiency_gain offroad_vehicle))) (PyInt 5000)
     = Inr (PyFloat (Finite (efficiency_gain offroad_vehicle * 5000)))"
  apply (simp add: gain_offroad_vehicle num_mul_def to_double_int)
  apply (simp add: offroad_vehicle_def)
  apply (rule fround_eqI [where e = 11 and m = 7696581394432000])
       apply simp_all
  done

lemma fround_numeral:
  "numeral w \<le> (2 ^ 53 :: int) \<Longrightarrow> fround (numeral w) = Finite (numeral w)"
  using fround_of_int [of "numeral w"] by simp

lemma traverse_Inr:
  "(\<And>a. a \<in> set xs \<Longrightarrow> f a = Inr (g a)) \<Longrightarrow> traverse f xs = Inr (map g xs)"
  by (induction xs) simp_all

lemma traverse_map_Inr:
  "(\<And>a. a \<in> set xs \<Longrightarrow> f (h a) = Inr (g a)) \<Longrightarrow>
   traverse f (map h xs) = Inr (map g xs)"
  by (induction xs) simp_all

lemma catalog_unit_bound:
  "(k, eq) \<in> set all_equipment \<Longrightarrow> total (annual_cost eq 1 100) \<le> 2 ^ 53"
  unfolding all_equipment_eq
  by (auto simp: annual_cost_def backup_drone_def thermal_camera_def gps_tracker_def
      satellite_comm_def rf_detector_def portable_gps_def offroad_vehicle_def)

lemma unit_total_known:
  assumes "(k, eq) \<in> set all_equipment"
  shows "unit_total k = Inr (PyFloat (Finite (total (annual_cost eq 1 100))))"
proof -
  have b: "total (annual_cost eq 1 (rat_of_int 100)) \<le> 2 ^ 53"
    using catalog_unit_bound [OF assms] by simp
  have "0 \<le> total (annual_cost eq 1 (rat_of_int 100))"
    using annual_cost_int [OF assms, of 1 100] catalog_costs [OF assms] by simp
  with b have b': "\<bar>total (annual_cost eq 1 (rat_of_int 100))\<bar> \<le> 2 ^ 53" by simp
  from calculate_annual_cost_exact [OF assms _ b b']
  show ?thesis by (simp add: unit_total_def default_usage_hours_def)
qed

lemma cost_row:
  "traverse unit_total equipment_list =
     Inr (map (\<lambda>(k, eq). PyFloat (Finite (total (annual_cost eq 1 100)))) all_equipment)"
  unfolding equipment_list_def
  by (rule traverse_map_Inr) (auto simp: unit_total_known)

lemma efficiency_coefficient:
  "(k, eq) \<in> set all_equipment \<Longrightarrow>
   num_mul (num_neg (PyFloat (float_literal (efficiency_gain eq)))) (PyInt 10000)
     = Inr (PyFloat (Finite (- (efficiency_gain eq * 10000))))"
  unfolding all_equipment_eq
  using efficiency_coefficient_backup_drone efficiency_coefficient_thermal_camera
    efficiency_coefficient_gps_tracker efficiency_coefficient_satellite_comm
    efficiency_coefficient_rf_detector efficiency_coefficient_portable_gps
    efficiency_coefficient_offroad_vehicle
  by auto

lemma balanced_term:
  "(k, eq) \<in> set all_equipment \<Longrightarrow>
   num_mul (PyFloat (float_literal (efficiency_gain eq))) (PyInt 5000)
     = Inr (PyFloat (Finite (efficiency_gain eq * 5000)))"
  unfolding all_equipment_eq
  using balanced_term_backup_drone balanced_term_thermal_camera balanced_term_gps_tracker
    balanced_term_satellite_comm balanced_term_rf_detector balanced_term_portable_gps
    balanced_term_offroad_vehicle
  by auto

lemma balanced_difference:
  "(k, eq) \<in> set all_equipment \<Longrightarrow>
   fround (total (annual_cost eq 1 100) - efficiency_gain eq * 5000)
     = Finite (total (annual_cost eq 1 100) - efficiency_gain eq * 5000)"
  unfolding all_equipment_eq
  by (auto simp: annual_cost_def backup_drone_def thermal_camera_def gps_tracker_def
      satellite_comm_def rf_detector_def portable_gps_def offroad_vehicle_def fround_numeral)

lemma balanced_coefficient:
  assumes "(k, eq) \<in> set all_equipment"
  shows "and_then (unit_total k) (\<lambda>t.
           and_then (num_mul (PyFloat (float_literal (efficiency_gain eq))) (PyInt 5000))
             (\<lambda>g. num_sub t g))
     = Inr (PyFloat (Finite (total (annual_cost eq 1 100) - efficiency_gain eq * 5000)))"
  using balanced_difference [OF assms]
  by (simp add: unit_total_known [OF assms] balanced_term [OF assms] num_sub_def)

lemma finite_value_Finite [simp]: "finite_value (PyFloat (Finite v)) = Inr v"
  by (simp add: finite_value_def)

lemma lp_problem_eq:
  "lp_problem budget priority =
     Inr \<lparr>lp_c = map (\<lambda>(k, eq).
                    if priority = ''cost'' then total (annual_cost eq 1 100)
                    else if priority = ''efficiency'' then - (efficiency_gain eq * 10000)
                    else total (annual_cost eq 1 100) - efficiency_gain eq * 5000) all_equipment,
          lp_A_ub = [map (\<lambda>(k, eq). total (annual_cost eq 1 100)) all_equipment],
          lp_b_ub = [budget],
          lp_bounds = map (\<lambda>(k, eq). (quantity_min eq, quantity_max eq)) all_equipment\<rparr>"
proof -
  have eff: "traverse (\<lambda>(k, eq). num_mul (num_neg (PyFloat (float_literal (efficiency_gain eq))))
                                 (PyInt 10000)) all_equipment
     = Inr (map (\<lambda>(k, eq). PyFloat (Finite (- (efficiency_gain eq * 10000)))) all_equipment)"
    by (rule traverse_Inr) (auto simp: efficiency_coefficient)
  have bal: "traverse (\<lambda>(k, eq). and_then (unit_total k) (\<lambda>t.
                         and_then (num_mul (PyFloat (float_literal (efficiency_gain eq)))
                                           (PyInt 5000))
                           (\<lambda>g. num_sub t g))) all_equipment
     = Inr (map (\<lambda>(k, eq). PyFloat (Finite (total (annual_cost eq 1 100) - efficiency_gain eq * 5000)))
              all_equipment)"
    by (rule traverse_Inr) (auto simp: balanced_coefficient)
  have arr: "traverse finite_value (map (\<lambda>(k, eq). PyFloat (Finite (f eq))) all_equipment)
     = Inr (map (\<lambda>(k, eq). f eq) all_equipment)" for f :: "equipment \<Rightarrow> rat"
    by (rule traverse_map_Inr) auto
  show ?thesis
    by (simp add: lp_problem_def cost_row eff bal arr)
qed

section \<open>The fallback bundles\<close>

text \<open>
  C4. \<open>get_fallback_solution\<close> has the budget as its only argument, so no priority
  mode reaches it, and it returns one of three fixed bundles: the small one below
  100,000, the medium one from 100,000 to below 300,000, the large one from 300,000.
\<close>

theorem fallback_bundles:
  "(budget < 100000 \<longrightarrow>
      get_fallback_solution budget =
        [(''backup_drone'', 2), (''gps_tracker'', 5), (''portable_gps'', 4)]) \<and>
   (100000 \<le> budget \<and> budget < 300000 \<longrightarrow>
      get_fallback_solution budget =
        [(''backup_drone'', 3), (''gps_tracker'', 8), (''thermal_camera'', 1),
         (''satellite_comm'', 1), (''rf_detector'', 2), (''portable_gps'', 6)]) \<and>
   (300000 \<le> budget \<longrightarrow>
      get_fallback_solution budget =
        [(''backup_drone'', 4), (''gps_tracker'', 10), (''thermal_camera'', 2),
         (''satellite_comm'', 2), (''rf_detector'', 3), (''portable_gps'', 8),
         (''offroad_vehicle'', 1)])"
  by (simp add: get_fallback_solution_def)

text \<open>C4 at the three thresholds.\<close>

theorem fallback_bundles_witness:
  "get_fallback_solution 99999 =
     [(''backup_drone'', 2), (''gps_tracker'', 5), (''portable_gps'', 4)] \<and>
   get_fallback_solution 100000 =
     [(''backup_drone'', 3), (''gps_tracker'', 8), (''thermal_camera'', 1),
      (''satellite_comm'', 1), (''rf_detector'', 2), (''portable_gps'', 6)] \<and>
   get_fallback_solution 300000 =
     [(''backup_drone'', 4), (''gps_tracker'', 10), (''thermal_camera'', 2),
      (''satellite_comm'', 2), (''rf_detector'', 3), (''portable_gps'', 8),
      (''offroad_vehicle'', 1)]"
  using fallback_bundles [of 99999] fallback_bundles [of 100000] fallback_bundles [of 300000]
  by simp

text \<open>
  C5. Building the linear program raises nothing, and its objective has one coefficient
  per catalog item, in the order of \<open>equipment_list\<close>: in mode \<open>cost\<close> the
  annual cost of one unit at 100 usage hours; in mode \<open>efficiency\<close> minus the
  efficiency gain times 10000; in any other mode, \<open>balanced\<close> among them, the annual
  cost of one unit at 100 usage hours minus the efficiency gain times 5000.
\<close>

theorem objective_coefficients:
  "\<exists>p. lp_problem budget priority = Inr p \<and>
     lp_c p = map (\<lambda>(k, eq).
                if priority = ''cost'' then total (annual_cost eq 1 100)
                else if priority = ''efficiency'' then - (efficiency_gain eq * 10000)
                else total (annual_cost eq 1 100) - efficiency_gain eq * 5000) all_equipment"
  by (simp add: lp_problem_eq)

lemma unit_costs:
  "map (\<lambda>(k, eq). total (annual_cost eq 1 100)) all_equipment =
     [66500, 23500, 6500, 28250, 21800, 6500, 127500]"
  by (simp add: all_equipment_eq annual_cost_def backup_drone_def thermal_camera_def
      gps_tracker_def satellite_comm_def rf_detector_def portable_gps_def offroad_vehicle_def)

lemma bounds_eq:
  "map (\<lambda>(k, eq). (quantity_min eq, quantity_max eq)) all_equipment =
     [(1, 5), (0, 3), (2, 10), (1, 3), (1, 4), (3, 8), (0, 2)]"
  by (simp add: all_equipment_eq backup_drone_def thermal_camera_def
      gps_tracker_def satellite_comm_def rf_detector_def portable_gps_def offroad_vehicle_def)

text \<open>C5 in numbers, for the three modes; the third is the default of the parameter.\<close>

theorem objective_coefficients_witness:
  "(\<exists>p. lp_problem 200000 ''cost'' = Inr p \<and>
      lp_c p = [66500, 23500, 6500, 28250, 21800, 6500, 127500]) \<and>
   (\<exists>p. lp_problem 200000 ''efficiency'' = Inr p \<and>
      lp_c p = [- 8500, - 6500, - 7500, - 5500, - 6000, - 4500, - 7000]) \<and>
   (\<exists>p. lp_problem 200000 default_priority = Inr p \<and>
      lp_c p = [62250, 20250, 2750, 25500, 18800, 4250, 124000])"
  using objective_coefficients [of 200000 "''cost''"]
    objective_coefficients [of 200000 "''efficiency''"]
    objective_coefficients [of 200000 default_priority]
  by (simp add: default_priority_def all_equipment_eq annual_cost_def backup_drone_def thermal_camera_def
      gps_tracker_def satellite_comm_def rf_detector_def portable_gps_def offroad_vehicle_def)

lemma lp_problem_unrecognised:
  "priority \<noteq> ''cost'' \<Longrightarrow> priority \<noteq> ''efficiency'' \<Longrightarrow>
   lp_problem budget priority = lp_problem budget ''balanced''"
  by (simp add: lp_problem_def)

text \<open>
  C9. A priority that is neither \<open>cost\<close> nor \<open>efficiency\<close> selects the balanced
  objective: the linear program built is the program of \<open>balanced\<close>, its objective
  has, per catalog item, the annual cost of one unit at 100 usage hours minus the
  efficiency gain times 5000, and the call raises nothing for the mode. The result is
  the result that \<open>balanced\<close> gives, which is what the function makes of the solver's
  answer to that program: the rounded positive components of a successful vector, an
  \<open>IndexError\<close> when the vector is short, the fallback plan on failure.
\<close>

theorem unrecognised_priority_is_balanced:
  assumes "priority \<noteq> ''cost''" and "priority \<noteq> ''efficiency''"
  shows "\<exists>p. lp_problem budget priority = Inr p \<and>
     lp_problem budget ''balanced'' = Inr p \<and>
     lp_c p = map (\<lambda>(k, eq). total (annual_cost eq 1 100) - efficiency_gain eq * 5000)
                  all_equipment \<and>
     optimize_equipment_selection linprog budget priority =
       optimize_equipment_selection linprog budget ''balanced'' \<and>
     optimize_equipment_selection linprog budget priority =
       (if lp_success (linprog p) then
          (if length (lp_x (linprog p)) < length equipment_list then Inl IndexError
           else Inr (map (\<lambda>i. (equipment_list ! i, py_round (lp_x (linprog p) ! i)))
                         (filter (\<lambda>i. lp_x (linprog p) ! i > 0) [0..<length equipment_list])))
        else Inr (get_fallback_solution budget))"
proof -
  have same: "lp_problem budget priority = lp_problem budget ''balanced''"
    using assms by (rule lp_problem_unrecognised)
  obtain p where p: "lp_problem budget priority = Inr p"
    using lp_problem_eq by blast
  have c: "lp_c p = map (\<lambda>(k, eq). total (annual_cost eq 1 100) - efficiency_gain eq * 5000)
                        all_equipment"
    using p assms by (auto simp: lp_problem_eq)
  have bal: "lp_problem budget ''balanced'' = Inr p" using p same by simp
  have o1: "optimize_equipment_selection linprog budget priority =
       optimize_equipment_selection linprog budget ''balanced''"
    by (simp add: optimize_equipment_selection_def same)
  have o2: "optimize_equipment_selection linprog budget priority =
       (if lp_success (linprog p) then
          (if length (lp_x (linprog p)) < length equipment_list then Inl IndexError
           else Inr (map (\<lambda>i. (equipment_list ! i, py_round (lp_x (linprog p) ! i)))
                         (filter (\<lambda>i. lp_x (linprog p) ! i > 0) [0..<length equipment_list])))
        else Inr (get_fallback_solution budget))"
    by (simp add: optimize_equipment_selection_def p Let_def)
  from p bal c o1 o2 show ?thesis by blast
qed

text \<open>
  C9 at a mode the source does not name, with the solver double that follows the
  objective: at budget 1,000,000 the mode \<open>speed\<close> has the objective and the plan of
  \<open>balanced\<close>; the objective is not the one of \<open>cost\<close>, and the plan is not the one
  of \<open>efficiency\<close>.
\<close>

theorem unrecognised_priority_is_balanced_witness:
  "(\<exists>p. lp_problem 1000000 ''speed'' = Inr p \<and>
        lp_c p = [62250, 20250, 2750, 25500, 18800, 4250, 124000]) \<and>
   (\<exists>p. lp_problem 1000000 ''cost'' = Inr p \<and>
        lp_c p = [66500, 23500, 6500, 28250, 21800, 6500, 127500]) \<and>
   optimize_equipment_selection corner_solver 1000000 ''speed'' =
     Inr [(''backup_drone'', 1), (''gps_tracker'', 2), (''satellite_comm'', 1),
          (''rf_detector'', 1), (''portable_gps'', 3)] \<and>
   optimize_equipment_selection corner_solver 1000000 ''balanced'' =
     Inr [(''backup_drone'', 1), (''gps_tracker'', 2), (''satellite_comm'', 1),
          (''rf_detector'', 1), (''portable_gps'', 3)] \<and>
   optimize_equipment_selection corner_solver 1000000 ''efficiency'' =
     Inr [(''backup_drone'', 5), (''thermal_camera'', 3), (''gps_tracker'', 10),
          (''satellite_comm'', 3), (''rf_detector'', 4), (''portable_gps'', 8),
          (''offroad_vehicle'', 2)]"
proof -
  have n: "''speed'' \<noteq> ''cost''" "''speed'' \<noteq> ''efficiency''" by simp_all
  from unrecognised_priority_is_balanced [OF n, of 1000000 corner_solver]
  obtain p where p: "lp_problem 1000000 ''speed'' = Inr p"
    and c: "lp_c p = map (\<lambda>(k, eq). total (annual_cost eq 1 100) - efficiency_gain eq * 5000)
                         all_equipment"
    and same: "optimize_equipment_selection corner_solver 1000000 ''speed'' =
       optimize_equipment_selection corner_solver 1000000 ''balanced''"
    and res: "optimize_equipment_selection corner_solver 1000000 ''speed'' =
       (if lp_success (corner_solver p) then
          (if length (lp_x (corner_solver p)) < length equipment_list then Inl IndexError
           else Inr (map (\<lambda>i. (equipment_list ! i, py_round (lp_x (corner_solver p) ! i)))
                         (filter (\<lambda>i. lp_x (corner_solver p) ! i > 0)
                                 [0..<length equipment_list])))
        else Inr (get_fallback_solution 1000000))"
    by blast
  have c': "lp_c p = [62250, 20250, 2750, 25500, 18800, 4250, 124000]"
    unfolding c
    by (simp add: all_equipment_eq annual_cost_def backup_drone_def thermal_camera_def
        gps_tracker_def satellite_comm_def rf_detector_def portable_gps_def offroad_vehicle_def)
  have pf: "lp_A_ub p = [[66500, 23500, 6500, 28250, 21800, 6500, 127500]]"
    "lp_b_ub p = [1000000]"
    "lp_bounds p = [(1, 5), (0, 3), (2, 10), (1, 3), (1, 4), (3, 8), (0, 2)]"
    using p by (auto simp: lp_problem_eq unit_costs bounds_eq)
  have s: "corner_solver p = \<lparr>lp_success = True, lp_x = [1, 0, 2, 1, 1, 3, 0]\<rparr>"
    by (simp add: corner_solver_def c' pf)
  have speed: "optimize_equipment_selection corner_solver 1000000 ''speed'' =
     Inr [(''backup_drone'', 1), (''gps_tracker'', 2), (''satellite_comm'', 1),
          (''rf_detector'', 1), (''portable_gps'', 3)]"
    unfolding res s by (simp add: equipment_list_eq py_round_def upt_rec)
  obtain pc where pc: "lp_problem 1000000 ''cost'' = Inr pc"
    using lp_problem_eq by blast
  then have cc: "lp_c pc = [66500, 23500, 6500, 28250, 21800, 6500, 127500]"
    by (auto simp: lp_problem_eq unit_costs)
  obtain pe where pe: "lp_problem 1000000 ''efficiency'' = Inr pe"
    using lp_problem_eq by blast
  then have pe_c: "lp_c pe = map (\<lambda>(k, eq). - (efficiency_gain eq * 10000)) all_equipment"
    by (auto simp: lp_problem_eq)
  have pef: "lp_c pe = [- 8500, - 6500, - 7500, - 5500, - 6000, - 4500, - 7000]"
    "lp_A_ub pe = [[66500, 23500, 6500, 28250, 21800, 6500, 127500]]"
    "lp_b_ub pe = [1000000]"
    "lp_bounds pe = [(1, 5), (0, 3), (2, 10), (1, 3), (1, 4), (3, 8), (0, 2)]"
    unfolding pe_c using pe
    by (auto simp: lp_problem_eq unit_costs bounds_eq)
      (simp add: all_equipment_eq backup_drone_def thermal_camera_def gps_tracker_def
        satellite_comm_def rf_detector_def portable_gps_def offroad_vehicle_def)
  have se: "corner_solver pe = \<lparr>lp_success = True, lp_x = [5, 3, 10, 3, 4, 8, 2]\<rparr>"
    by (simp add: corner_solver_def pef)
  have eff: "optimize_equipment_selection corner_solver 1000000 ''efficiency'' =
     Inr [(''backup_drone'', 5), (''thermal_camera'', 3), (''gps_tracker'', 10),
          (''satellite_comm'', 3), (''rf_detector'', 4), (''portable_gps'', 8),
          (''offroad_vehicle'', 2)]"
    by (simp add: optimize_equipment_selection_def pe se equipment_list_eq py_round_def upt_rec)
  from p c' pc cc speed same eff show ?thesis by auto
qed

section \<open>The solver's two outcomes\<close>

text \<open>
  The minimum quantities alone cost 149,050 a year, so no vector within the bounds meets
  a smaller budget.
\<close>

lemma infeasible_below_minimum:
  assumes "budget < 149050" and "lp_problem budget priority = Inr p"
  shows "\<not> feasible p xs"
proof
  assume f: "feasible p xs"
  have p: "lp_A_ub p = [[66500, 23500, 6500, 28250, 21800, 6500, 127500]]"
    "lp_b_ub p = [budget]"
    "lp_bounds p = [(1, 5), (0, 3), (2, 10), (1, 3), (1, 4), (3, 8), (0, 2)]"
    using assms(2) by (auto simp: lp_problem_eq unit_costs bounds_eq)
  from f obtain x0 x1 x2 x3 x4 x5 x6 where xs: "xs = [x0, x1, x2, x3, x4, x5, x6]"
    by (auto simp: feasible_def p list_all2_Cons1)
  from f have "66500 * x0 + 23500 * x1 + 6500 * x2 + 28250 * x3 + 21800 * x4 + 6500 * x5
      + 127500 * x6 \<le> budget"
    and "1 \<le> x0" "0 \<le> x1" "2 \<le> x2" "1 \<le> x3" "1 \<le> x4" "3 \<le> x5" "0 \<le> x6"
    by (simp_all add: feasible_def p xs)
  with assms(1) show False by linarith
qed

lemma optimize_failure:
  "lp_problem budget priority = Inr p \<Longrightarrow> \<not> lp_success (linprog p) \<Longrightarrow>
   optimize_equipment_selection linprog budget priority = Inr (get_fallback_solution budget)"
  by (simp add: optimize_equipment_selection_def)

text \<open>
  C6. When the solver reports failure, \<open>optimize_equipment_selection\<close> raises nothing
  and returns the fallback plan of the budget. At budget 80,000 the program has no
  feasible point, so a solver whose successes are feasible reports failure there, and
  the call returns the small bundle.
\<close>

theorem solver_failure_gives_fallback:
  "(\<exists>p. lp_problem budget priority = Inr p \<and>
        (\<not> lp_success (linprog p) \<longrightarrow>
           optimize_equipment_selection linprog budget priority =
             Inr (get_fallback_solution budget))) \<and>
   (\<exists>p. lp_problem 80000 priority = Inr p \<and>
        (\<forall>xs. \<not> feasible p xs) \<and>
        ((lp_success (linprog p) \<longrightarrow> feasible p (lp_x (linprog p))) \<longrightarrow>
           optimize_equipment_selection linprog 80000 priority =
             Inr [(''backup_drone'', 2), (''gps_tracker'', 5), (''portable_gps'', 4)]))"
proof (rule conjI)
  obtain p where p: "lp_problem budget priority = Inr p"
    using lp_problem_eq by blast
  then show "\<exists>p. lp_problem budget priority = Inr p \<and>
        (\<not> lp_success (linprog p) \<longrightarrow>
           optimize_equipment_selection linprog budget priority =
             Inr (get_fallback_solution budget))"
    using optimize_failure by blast
next
  obtain p where p: "lp_problem 80000 priority = Inr p"
    using lp_problem_eq by blast
  have inf: "\<not> feasible p xs" for xs
    by (rule infeasible_below_minimum [OF _ p]) simp
  have "optimize_equipment_selection linprog 80000 priority =
      Inr [(''backup_drone'', 2), (''gps_tracker'', 5), (''portable_gps'', 4)]"
    if "lp_success (linprog p) \<longrightarrow> feasible p (lp_x (linprog p))"
  proof -
    from that inf have "\<not> lp_success (linprog p)" by blast
    from optimize_failure [where linprog = linprog, OF p this] show ?thesis
      by (simp add: get_fallback_solution_def)
  qed
  with p inf show "\<exists>p. lp_problem 80000 priority = Inr p \<and>
        (\<forall>xs. \<not> feasible p xs) \<and>
        ((lp_success (linprog p) \<longrightarrow> feasible p (lp_x (linprog p))) \<longrightarrow>
           optimize_equipment_selection linprog 80000 priority =
             Inr [(''backup_drone'', 2), (''gps_tracker'', 5), (''portable_gps'', 4)])"
    by blast
qed

text \<open>C6 with the solver double that fails.\<close>

theorem solver_failure_gives_fallback_witness:
  "optimize_equipment_selection failing_solver 200000 ''cost'' =
     Inr (get_fallback_solution 200000) \<and>
   optimize_equipment_selection failing_solver 80000 ''cost'' =
     Inr [(''backup_drone'', 2), (''gps_tracker'', 5), (''portable_gps'', 4)]"
proof -
  from solver_failure_gives_fallback [of 200000 "''cost''" failing_solver]
  obtain p q where
    p: "\<not> lp_success (failing_solver p) \<longrightarrow>
          optimize_equipment_selection failing_solver 200000 ''cost'' =
            Inr (get_fallback_solution 200000)"
    and q: "(lp_success (failing_solver q) \<longrightarrow> feasible q (lp_x (failing_solver q))) \<longrightarrow>
          optimize_equipment_selection failing_solver 80000 ''cost'' =
            Inr [(''backup_drone'', 2), (''gps_tracker'', 5), (''portable_gps'', 4)]"
    by blast
  have "\<not> lp_success (failing_solver p)" "\<not> lp_success (failing_solver q)"
    by (simp_all add: failing_solver_def)
  with p q show ?thesis by blast
qed

lemma map_of_indexed:
  assumes "distinct ks" and "i < length ks" and "set js \<subseteq> {..<length ks}"
  shows "map_of (map (\<lambda>j. (ks ! j, g j)) js) (ks ! i) = (if i \<in> set js then Some (g i) else None)"
  using assms(3)
proof (induction js)
  case Nil
  then show ?case by simp
next
  case (Cons j js)
  then have j: "j < length ks" by simp
  have "ks ! j = ks ! i \<longleftrightarrow> j = i"
    using assms(1,2) j by (simp add: nth_eq_iff_index_eq)
  with Cons show ?case by auto
qed

lemma quantity_in_selected:
  assumes "distinct ks" and "i < length ks"
  shows "quantity_in (map (\<lambda>j. (ks ! j, g j)) (filter P [0..<length ks])) (ks ! i)
           = (if P i then g i else 0)"
proof -
  have "set (filter P [0..<length ks]) \<subseteq> {..<length ks}" by auto
  from map_of_indexed [OF assms this, of g] assms(2) show ?thesis
    by (simp add: quantity_in_def)
qed

lemma selected_quantity_exact:
  assumes "of_int lo \<le> v" and "0 \<le> lo" and "of_int \<lfloor>v\<rfloor> = v"
  shows "of_int (if 0 < v then py_round v else 0) = v"
proof (cases "0 < v")
  case True
  have "py_round v = \<lfloor>v\<rfloor>"
    using py_round_of_int [of "\<lfloor>v\<rfloor>"] assms(3) by simp
  with True assms(3) show ?thesis by simp
next
  case False
  have "(0::rat) \<le> of_int lo" using assms(2) by simp
  with False assms(1) have "v = 0" by linarith
  then show ?thesis by simp
qed

lemma int_between:
  fixes v :: rat
  assumes "of_int q = v" and "of_int lo \<le> v" and "v \<le> of_int hi"
  shows "lo \<le> q \<and> q \<le> hi"
  using assms by auto

text \<open>
  C1, as amended. When the solver reports success with a vector of integers that lies
  within the bounds and meets the budget row, the plan returned gives every item a
  quantity within its bounds (an omitted item counting 0), and its total annual cost is
  at most the budget. Nothing is said of the fallback path.
\<close>

theorem successful_plan_is_feasible:
  assumes p: "lp_problem budget priority = Inr p"
    and success: "lp_success (linprog p)"
    and feas: "feasible p (lp_x (linprog p))"
    and integ: "integral (lp_x (linprog p))"
  shows "\<exists>plan. optimize_equipment_selection linprog budget priority = Inr plan \<and>
           within_bounds plan \<and> plan_cost plan \<le> budget"
proof -
  define xs where "xs = lp_x (linprog p)"
  define plan where "plan = map (\<lambda>i. (equipment_list ! i, py_round (xs ! i)))
                            (filter (\<lambda>i. xs ! i > 0) [0..<length equipment_list])"
  have pf: "lp_A_ub p = [[66500, 23500, 6500, 28250, 21800, 6500, 127500]]"
    "lp_b_ub p = [budget]"
    "lp_bounds p = [(1, 5), (0, 3), (2, 10), (1, 3), (1, 4), (3, 8), (0, 2)]"
    using p by (auto simp: lp_problem_eq unit_costs bounds_eq)
  from feas obtain x0 x1 x2 x3 x4 x5 x6 where xs: "xs = [x0, x1, x2, x3, x4, x5, x6]"
    by (auto simp: feasible_def pf list_all2_Cons1 xs_def)
  from feas have row: "66500 * x0 + 23500 * x1 + 6500 * x2 + 28250 * x3 + 21800 * x4 + 6500 * x5
      + 127500 * x6 \<le> budget"
    and lo: "of_int 1 \<le> x0" "of_int 0 \<le> x1" "of_int 2 \<le> x2" "of_int 1 \<le> x3" "of_int 1 \<le> x4"
      "of_int 3 \<le> x5" "of_int 0 \<le> x6"
    and hi: "x0 \<le> of_int 5" "x1 \<le> of_int 3" "x2 \<le> of_int 10" "x3 \<le> of_int 3" "x4 \<le> of_int 4"
      "x5 \<le> of_int 8" "x6 \<le> of_int 2"
    by (simp_all add: feasible_def pf xs xs_def [symmetric])
  from integ have int: "of_int \<lfloor>x0\<rfloor> = x0" "of_int \<lfloor>x1\<rfloor> = x1" "of_int \<lfloor>x2\<rfloor> = x2"
    "of_int \<lfloor>x3\<rfloor> = x3" "of_int \<lfloor>x4\<rfloor> = x4" "of_int \<lfloor>x5\<rfloor> = x5" "of_int \<lfloor>x6\<rfloor> = x6"
    by (simp_all add: integral_def xs xs_def [symmetric])
  have len: "length equipment_list = 7" by (simp add: equipment_list_eq)
  have opt: "optimize_equipment_selection linprog budget priority = Inr plan"
    using success by (simp add: optimize_equipment_selection_def p Let_def plan_def
        xs_def [symmetric] xs len)
  have dist: "distinct equipment_list" by (simp add: equipment_list_eq)
  have sel: "quantity_in plan (equipment_list ! i) = (if 0 < xs ! i then py_round (xs ! i) else 0)"
    if "i < 7" for i
    unfolding plan_def
    using quantity_in_selected [OF dist, where i = i and P = "\<lambda>i. 0 < xs ! i"
        and g = "\<lambda>i. py_round (xs ! i)"] that len
    by simp
  have q0: "of_int (quantity_in plan ''backup_drone'') = x0"
  proof -
    have "quantity_in plan ''backup_drone'' = (if 0 < x0 then py_round x0 else 0)"
      using sel [of 0] by (simp add: equipment_list_eq xs)
    moreover have "of_int (if 0 < x0 then py_round x0 else 0) = x0"
      by (rule selected_quantity_exact [OF lo(1) _ int(1)]) simp
    ultimately show ?thesis by (simp only:)
  qed
  have q1: "of_int (quantity_in plan ''thermal_camera'') = x1"
  proof -
    have "quantity_in plan ''thermal_camera'' = (if 0 < x1 then py_round x1 else 0)"
      using sel [of 1] by (simp add: equipment_list_eq xs)
    moreover have "of_int (if 0 < x1 then py_round x1 else 0) = x1"
      by (rule selected_quantity_exact [OF lo(2) _ int(2)]) simp
    ultimately show ?thesis by (simp only:)
  qed
  have q2: "of_int (quantity_in plan ''gps_tracker'') = x2"
  proof -
    have "quantity_in plan ''gps_tracker'' = (if 0 < x2 then py_round x2 else 0)"
      using sel [of 2] by (simp add: equipment_list_eq xs)
    moreover have "of_int (if 0 < x2 then py_round x2 else 0) = x2"
      by (rule selected_quantity_exact [OF lo(3) _ int(3)]) simp
    ultimately show ?thesis by (simp only:)
  qed
  have q3: "of_int (quantity_in plan ''satellite_comm'') = x3"
  proof -
    have "quantity_in plan ''satellite_comm'' = (if 0 < x3 then py_round x3 else 0)"
      using sel [of 3] by (simp add: equipment_list_eq xs)
    moreover have "of_int (if 0 < x3 then py_round x3 else 0) = x3"
      by (rule selected_quantity_exact [OF lo(4) _ int(4)]) simp
    ultimately show ?thesis by (simp only:)
  qed
  have q4: "of_int (quantity_in plan ''rf_detector'') = x4"
  proof -
    have "quantity_in plan ''rf_detector'' = (if 0 < x4 then py_round x4 else 0)"
      using sel [of 4] by (simp add: equipment_list_eq xs)
    moreover have "of_int (if 0 < x4 then py_round x4 else 0) = x4"
      by (rule selected_quantity_exact [OF lo(5) _ int(5)]) simp
    ultimately show ?thesis by (simp only:)
  qed
  have q5: "of_int (quantity_in plan ''portable_gps'') = x5"
  proof -
    have "quantity_in plan ''portable_gps'' = (if 0 < x5 then py_round x5 else 0)"
      using sel [of 5] by (simp add: equipment_list_eq xs)
    moreover have "of_int (if 0 < x5 then py_round x5 else 0) = x5"
      by (rule selected_quantity_exact [OF lo(6) _ int(6)]) simp
    ultimately show ?thesis by (simp only:)
  qed
  have q6: "of_int (quantity_in plan ''offroad_vehicle'') = x6"
  proof -
    have "quantity_in plan ''offroad_vehicle'' = (if 0 < x6 then py_round x6 else 0)"
      using sel [of 6] by (simp add: equipment_list_eq xs)
    moreover have "of_int (if 0 < x6 then py_round x6 else 0) = x6"
      by (rule selected_quantity_exact [OF lo(7) _ int(7)]) simp
    ultimately show ?thesis by (simp only:)
  qed
  have bounds: "within_bounds plan"
    using int_between [OF q0 lo(1) hi(1)] int_between [OF q1 lo(2) hi(2)]
      int_between [OF q2 lo(3) hi(3)] int_between [OF q3 lo(4) hi(4)]
      int_between [OF q4 lo(5) hi(5)] int_between [OF q5 lo(6) hi(6)]
      int_between [OF q6 lo(7) hi(7)]
    by (simp add: within_bounds_def all_equipment_eq backup_drone_def thermal_camera_def
        gps_tracker_def satellite_comm_def rf_detector_def portable_gps_def offroad_vehicle_def)
  have "plan_cost plan = 66500 * x0 + 23500 * x1 + 6500 * x2 + 28250 * x3 + 21800 * x4
      + 6500 * x5 + 127500 * x6"
    by (simp add: plan_cost_def all_equipment_eq default_usage_hours_def annual_cost_def
        backup_drone_def thermal_camera_def gps_tracker_def satellite_comm_def rf_detector_def
        portable_gps_def offroad_vehicle_def q0 q1 q2 q3 q4 q5 q6)
  with row have "plan_cost plan \<le> budget" by simp
  with opt bounds show ?thesis by blast
qed

text \<open>The amended C1 at budget 200,000 with the minimum quantities as the solution.\<close>

theorem successful_plan_is_feasible_witness:
  "\<exists>plan. optimize_equipment_selection (constant_solver [1, 0, 2, 1, 1, 3, 0]) 200000 ''cost''
       = Inr plan \<and> within_bounds plan \<and> plan_cost plan \<le> 200000"
proof -
  obtain p where p: "lp_problem 200000 ''cost'' = Inr p"
    using lp_problem_eq by blast
  then have pf: "lp_A_ub p = [[66500, 23500, 6500, 28250, 21800, 6500, 127500]]"
    "lp_b_ub p = [200000]"
    "lp_bounds p = [(1, 5), (0, 3), (2, 10), (1, 3), (1, 4), (3, 8), (0, 2)]"
    by (auto simp: lp_problem_eq unit_costs bounds_eq)
  have s: "lp_success (constant_solver [1, 0, 2, 1, 1, 3, 0] p)"
    by (simp add: constant_solver_def)
  have f: "feasible p (lp_x (constant_solver [1, 0, 2, 1, 1, 3, 0] p))"
    by (simp add: constant_solver_def feasible_def pf)
  have i: "integral (lp_x (constant_solver [1, 0, 2, 1, 1, 3, 0] p))"
    by (simp add: constant_solver_def integral_def)
  from successful_plan_is_feasible
    [where linprog = "constant_solver [1, 0, 2, 1, 1, 3, 0]", OF p s f i]
  show ?thesis .
qed

text \<open>
  C1 as stated fails on the fallback path: at budget 80,000 the small bundle leaves out
  the satellite link and the detector, whose minimum is 1, and costs 191,500 a year.
\<close>

theorem fallback_plan_counterexample:
  "optimize_equipment_selection failing_solver 80000 ''balanced'' =
     Inr [(''backup_drone'', 2), (''gps_tracker'', 5), (''portable_gps'', 4)] \<and>
   \<not> within_bounds [(''backup_drone'', 2), (''gps_tracker'', 5), (''portable_gps'', 4)] \<and>
   \<not> plan_cost [(''backup_drone'', 2), (''gps_tracker'', 5), (''portable_gps'', 4)] \<le> 80000"
proof (intro conjI)
  obtain p where p: "lp_problem 80000 ''balanced'' = Inr p"
    using lp_problem_eq by blast
  show "optimize_equipment_selection failing_solver 80000 ''balanced'' =
     Inr [(''backup_drone'', 2), (''gps_tracker'', 5), (''portable_gps'', 4)]"
    by (simp add: optimize_equipment_selection_def p failing_solver_def get_fallback_solution_def)
  show "\<not> within_bounds [(''backup_drone'', 2), (''gps_tracker'', 5), (''portable_gps'', 4)]"
    by (simp add: within_bounds_def all_equipment_eq quantity_in_def satellite_comm_def)
  show "\<not> plan_cost [(''backup_drone'', 2), (''gps_tracker'', 5), (''portable_gps'', 4)] \<le> 80000"
    by (simp add: plan_cost_def all_equipment_eq quantity_in_def default_usage_hours_def
        annual_cost_def backup_drone_def thermal_camera_def gps_tracker_def satellite_comm_def
        rf_detector_def portable_gps_def offroad_vehicle_def)
qed

section \<open>Evaluations in double arithmetic\<close>

text \<open>
  The catalog lookups and the doubles of the literals that the evaluations below read.
  Every rounding is justified by its exponent and its mantissa.
\<close>

lemma fround_zero: "fround 0 = Finite 0"
  by (simp add: fround_def)

lemma lookup_backup_drone: "lookup_equipment ''backup_drone'' = Inr backup_drone"
  by (simp add: lookup_equipment_def control_equipment_def)

lemma lookup_thermal_camera: "lookup_equipment ''thermal_camera'' = Inr thermal_camera"
  by (simp add: lookup_equipment_def control_equipment_def)

lemma lookup_gps_tracker: "lookup_equipment ''gps_tracker'' = Inr gps_tracker"
  by (simp add: lookup_equipment_def control_equipment_def)

lemma lookup_satellite_comm: "lookup_equipment ''satellite_comm'' = Inr satellite_comm"
  by (simp add: lookup_equipment_def control_equipment_def)

lemma lookup_rf_detector: "lookup_equipment ''rf_detector'' = Inr rf_detector"
  by (simp add: lookup_equipment_def control_equipment_def rescue_equipment_def)

lemma lookup_portable_gps: "lookup_equipment ''portable_gps'' = Inr portable_gps"
  by (simp add: lookup_equipment_def control_equipment_def rescue_equipment_def)

lemma lookup_offroad_vehicle: "lookup_equipment ''offroad_vehicle'' = Inr offroad_vehicle"
  by (simp add: lookup_equipment_def control_equipment_def rescue_equipment_def)

lemma response_backup_drone:
  "float_literal (response_time_reduction backup_drone) = Finite (3152519739159347 / 4503599627370496)"
  apply (simp add: float_literal_def backup_drone_def)
  apply (rule fround_eqI [where e = "- 1" and m = 6305039478318694])
       apply simp_all
  done

lemma response_thermal_camera:
  "float_literal (response_time_reduction thermal_camera) = Finite (5404319552844595 / 18014398509481984)"
  apply (simp add: float_literal_def thermal_camera_def)
  apply (rule fround_eqI [where e = "- 2" and m = 5404319552844595])
       apply simp_all
  done


lemma response_satellite_comm:
  "float_literal (response_time_reduction satellite_comm) = Finite (3602879701896397 / 9007199254740992)"
  apply (simp add: float_literal_def satellite_comm_def)
  apply (rule fround_eqI [where e = "- 2" and m = 7205759403792794])
       apply simp_all
  done

lemma response_rf_detector:
  "float_literal (response_time_reduction rf_detector) = Finite (1 / 2)"
  apply (simp add: float_literal_def rf_detector_def)
  apply (rule fround_eqI [where e = "- 1" and m = 4503599627370496])
       apply simp_all
  done

lemma response_portable_gps:
  "float_literal (response_time_reduction portable_gps) = Finite (3152519739159347 / 9007199254740992)"
  apply (simp add: float_literal_def portable_gps_def)
  apply (rule fround_eqI [where e = "- 2" and m = 6305039478318694])
       apply simp_all
  done

lemma response_offroad_vehicle:
  "float_literal (response_time_reduction offroad_vehicle) = Finite (5854679515581645 / 9007199254740992)"
  apply (simp add: float_literal_def offroad_vehicle_def)
  apply (rule fround_eqI [where e = "- 1" and m = 5854679515581645])
       apply simp_all
  done

lemma literal_06: "float_literal 0.6 = Finite (5404319552844595 / 9007199254740992)"
  apply (simp add: float_literal_def)
  apply (rule fround_eqI [where e = "- 1" and m = 5404319552844595])
       apply simp_all
  done

lemma literal_06_normal: "float_literal (3 / 5) = Finite (5404319552844595 / 9007199254740992)"
  using literal_06 by simp

lemma literal_04: "float_literal 0.4 = Finite (3602879701896397 / 9007199254740992)"
  apply (simp add: float_literal_def)
  apply (rule fround_eqI [where e = "- 2" and m = 7205759403792794])
       apply simp_all
  done

lemma literal_04_normal: "float_literal (2 / 5) = Finite (3602879701896397 / 9007199254740992)"
  using literal_04 by simp

lemma literal_1282: "float_literal 128.2 = Finite (2255318250894131 / 17592186044416)"
  apply (simp add: float_literal_def)
  apply (rule fround_eqI [where e = 7 and m = 4510636501788262])
       apply simp_all
  done

lemma literal_1282_normal: "float_literal (641 / 5) = Finite (2255318250894131 / 17592186044416)"
  using literal_1282 by simp

lemma gps_tracker_costs:
  "acquisition_cost gps_tracker = 2000" "lifespan gps_tracker = 2"
  "maintenance_cost gps_tracker = 300" "readiness_cost gps_tracker = 200"
  "usage_cost_per_hour gps_tracker = 50"
  by (simp_all add: gps_tracker_def)

lemma backup_drone_costs:
  "acquisition_cost backup_drone = 30000" "lifespan backup_drone = 3"
  "maintenance_cost backup_drone = 4500" "readiness_cost backup_drone = 2000"
  "usage_cost_per_hour backup_drone = 500"
  by (simp_all add: backup_drone_def)

text \<open>
  The single operations of the runs evaluated below: each lemma is one arithmetic
  operation of the interpreter on the operands that reach it.
\<close>

lemma step_1: "int_truediv 30000 3 = Inr (Finite 10000)"
proof -
  have "fround (30000 / 3) = Finite 10000"
    by (simp, rule fround_eqI [where e = 13 and m = 5497558138880000]) simp_all
  then show ?thesis by (simp add: int_truediv_def)
qed

lemma step_2: "num_add (PyFloat (Finite 10000)) (PyInt 4500) = Inr (PyFloat (Finite 14500))"
  apply (simp add: num_add_def to_double_int )
  apply (rule fround_eqI [where e = 13 and m = 7971459301376000])
       apply simp_all
  done

lemma step_3: "num_add (PyFloat (Finite 14500)) (PyInt 2000) = Inr (PyFloat (Finite 16500))"
  apply (simp add: num_add_def to_double_int )
  apply (rule fround_eqI [where e = 14 and m = 4535485464576000])
       apply simp_all
  done

lemma step_4: "num_add (PyFloat (Finite 16500)) (PyInt 50000) = Inr (PyFloat (Finite 66500))"
  apply (simp add: num_add_def to_double_int )
  apply (rule fround_eqI [where e = 16 and m = 4569845202944000])
       apply simp_all
  done

lemma step_5: "num_mul (PyFloat (Finite 66500)) (PyInt (- 1)) = Inr (PyFloat (Finite (- 66500)))"
  apply (simp add: num_mul_def to_double_int )
  apply (rule fround_eqI [where e = 16 and m = "- 4569845202944000"])
       apply simp_all
  done

lemma step_6: "num_mul (PyFloat (Finite 10000)) (PyInt (- 1)) = Inr (PyFloat (Finite (- 10000)))"
  apply (simp add: num_mul_def to_double_int )
  apply (rule fround_eqI [where e = 13 and m = "- 5497558138880000"])
       apply simp_all
  done

lemma step_7: "int_truediv 2000 2 = Inr (Finite 1000)"
proof -
  have "fround (2000 / 2) = Finite 1000"
    by (simp, rule fround_eqI [where e = 9 and m = 8796093022208000]) simp_all
  then show ?thesis by (simp add: int_truediv_def)
qed

lemma step_8: "num_mul (PyInt 50) (PyFloat (Finite (2255318250894131 / 17592186044416))) = Inr (PyFloat (Finite (7047869534044159 / 1099511627776)))"
  apply (simp add: num_mul_def to_double_int )
  apply (rule fround_eqI [where e = 12 and m = 7047869534044159])
       apply simp_all
  done

lemma step_9: "num_add (PyFloat (Finite 1000)) (PyInt 300) = Inr (PyFloat (Finite 1300))"
  apply (simp add: num_add_def to_double_int )
  apply (rule fround_eqI [where e = 10 and m = 5717460464435200])
       apply simp_all
  done

lemma step_10: "num_add (PyFloat (Finite 1300)) (PyInt 200) = Inr (PyFloat (Finite 1500))"
  apply (simp add: num_add_def to_double_int )
  apply (rule fround_eqI [where e = 10 and m = 6597069766656000])
       apply simp_all
  done

lemma step_11: "num_add (PyFloat (Finite 1500)) (PyFloat (Finite (7047869534044159 / 1099511627776))) = Inr (PyFloat (Finite (8697136975708159 / 1099511627776)))"
  apply (simp add: num_add_def to_double_int )
  apply (rule fround_eqI [where e = 12 and m = 8697136975708159])
       apply simp_all
  done

lemma step_12: "num_mul (PyFloat (Finite (8697136975708159 / 1099511627776))) (PyInt 8) = Inr (PyFloat (Finite (8697136975708159 / 137438953472)))"
  apply (simp add: num_mul_def to_double_int )
  apply (rule fround_eqI [where e = 15 and m = 8697136975708159])
       apply simp_all
  done

lemma step_13: "num_mul (PyFloat (Finite 1000)) (PyInt 8) = Inr (PyFloat (Finite 8000))"
  apply (simp add: num_mul_def to_double_int )
  apply (rule fround_eqI [where e = 12 and m = 8796093022208000])
       apply simp_all
  done

lemma step_14: "num_mul (PyFloat (Finite (7047869534044159 / 1099511627776))) (PyInt 8) = Inr (PyFloat (Finite (7047869534044159 / 137438953472)))"
  apply (simp add: num_mul_def to_double_int )
  apply (rule fround_eqI [where e = 15 and m = 7047869534044159])
       apply simp_all
  done

lemma step_15: "num_mul (PyFloat (Finite (8697136975708159 / 1099511627776))) (PyInt 3) = Inr (PyFloat (Finite (6522852731781119 / 274877906944)))"
  apply (simp add: num_mul_def to_double_int )
  apply (rule fround_eqI [where e = 14 and m = 6522852731781119])
       apply simp_all
  done

lemma step_16: "num_mul (PyFloat (Finite 1000)) (PyInt 3) = Inr (PyFloat (Finite 3000))"
  apply (simp add: num_mul_def to_double_int )
  apply (rule fround_eqI [where e = 11 and m = 6597069766656000])
       apply simp_all
  done

lemma step_17: "num_mul (PyFloat (Finite (7047869534044159 / 1099511627776))) (PyInt 3) = Inr (PyFloat (Finite (5285902150533119 / 274877906944)))"
  apply (simp add: num_mul_def to_double_int )
  apply (rule fround_eqI [where e = 14 and m = 5285902150533119])
       apply simp_all
  done

lemma step_18: "num_mul (PyFloat (Finite (8697136975708159 / 1099511627776))) (PyInt 5) = Inr (PyFloat (Finite (5435710609817599 / 137438953472)))"
  apply (simp add: num_mul_def to_double_int )
  apply (rule fround_eqI [where e = 15 and m = 5435710609817599])
       apply simp_all
  done

lemma step_19: "num_mul (PyFloat (Finite 1000)) (PyInt 5) = Inr (PyFloat (Finite 5000))"
  apply (simp add: num_mul_def to_double_int )
  apply (rule fround_eqI [where e = 12 and m = 5497558138880000])
       apply simp_all
  done

lemma step_20: "num_mul (PyFloat (Finite (7047869534044159 / 1099511627776))) (PyInt 5) = Inr (PyFloat (Finite (8809836917555199 / 274877906944)))"
  apply (simp add: num_mul_def to_double_int )
  apply (rule fround_eqI [where e = 14 and m = 8809836917555199])
       apply simp_all
  done

lemma step_21: "num_add (PyFloat (Finite (6522852731781119 / 274877906944))) (PyFloat (Finite (5435710609817599 / 137438953472))) = Inr (PyFloat (Finite (4348568487854079 / 68719476736)))"
  apply (simp add: num_add_def to_double_int )
  apply (rule fround_eqI [where e = 15 and m = 8697136975708158])
       apply simp_all
  done

lemma step_22: "num_mul (PyFloat (Finite (7656119366529843 / 9007199254740992))) (PyInt 9) = Inr (PyFloat (Finite (8613134287346073 / 1125899906842624)))"
  apply (simp add: num_mul_def to_double_int )
  apply (rule fround_eqI [where e = 2 and m = 8613134287346073])
       apply simp_all
  done

lemma step_23: "num_add (PyInt 0) (PyFloat (Finite (8613134287346073 / 1125899906842624))) = Inr (PyFloat (Finite (8613134287346073 / 1125899906842624)))"
  apply (simp add: num_add_def to_double_int )
  apply (rule fround_eqI [where e = 2 and m = 8613134287346073])
       apply simp_all
  done

lemma step_24: "num_mul (PyFloat (Finite (3152519739159347 / 4503599627370496))) (PyInt 9) = Inr (PyFloat (Finite (7093169413108531 / 1125899906842624)))"
  apply (simp add: num_mul_def to_double_int )
  apply (rule fround_eqI [where e = 2 and m = 7093169413108531])
       apply simp_all
  done

lemma step_25: "num_add (PyInt 0) (PyFloat (Finite (7093169413108531 / 1125899906842624))) = Inr (PyFloat (Finite (7093169413108531 / 1125899906842624)))"
  apply (simp add: num_add_def to_double_int )
  apply (rule fround_eqI [where e = 2 and m = 7093169413108531])
       apply simp_all
  done

lemma step_26: "num_mul (PyFloat (Finite (8613134287346073 / 1125899906842624))) (PyFloat (Finite (5404319552844595 / 9007199254740992))) = Inr (PyFloat (Finite (1291970143101911 / 281474976710656)))"
  apply (simp add: num_mul_def to_double_int )
  apply (rule fround_eqI [where e = 2 and m = 5167880572407644])
       apply simp_all
  done

lemma step_27: "num_mul (PyFloat (Finite (7093169413108531 / 1125899906842624))) (PyFloat (Finite (3602879701896397 / 9007199254740992))) = Inr (PyFloat (Finite (5674535530486825 / 2251799813685248)))"
  apply (simp add: num_mul_def to_double_int )
  apply (rule fround_eqI [where e = 1 and m = 5674535530486825])
       apply simp_all
  done

lemma step_28: "num_add (PyFloat (Finite (1291970143101911 / 281474976710656))) (PyFloat (Finite (5674535530486825 / 2251799813685248))) = Inr (PyFloat (Finite (500321771103191 / 70368744177664)))"
  apply (simp add: num_add_def to_double_int )
  apply (rule fround_eqI [where e = 2 and m = 8005148337651056])
       apply simp_all
  done

lemma step_29: "num_mul (PyFloat (Finite (7656119366529843 / 9007199254740992))) (PyInt 2) = Inr (PyFloat (Finite (7656119366529843 / 4503599627370496)))"
  apply (simp add: num_mul_def to_double_int )
  apply (rule fround_eqI [where e = 0 and m = 7656119366529843])
       apply simp_all
  done

lemma step_30: "num_add (PyInt 0) (PyFloat (Finite (7656119366529843 / 4503599627370496))) = Inr (PyFloat (Finite (7656119366529843 / 4503599627370496)))"
  apply (simp add: num_add_def to_double_int )
  apply (rule fround_eqI [where e = 0 and m = 7656119366529843])
       apply simp_all
  done

lemma step_31: "num_mul (PyFloat (Finite (3152519739159347 / 4503599627370496))) (PyInt 2) = Inr (PyFloat (Finite (3152519739159347 / 2251799813685248)))"
  apply (simp add: num_mul_def to_double_int )
  apply (rule fround_eqI [where e = 0 and m = 6305039478318694])
       apply simp_all
  done

lemma step_32: "num_add (PyInt 0) (PyFloat (Finite (3152519739159347 / 2251799813685248))) = Inr (PyFloat (Finite (3152519739159347 / 2251799813685248)))"
  apply (simp add: num_add_def to_double_int )
  apply (rule fround_eqI [where e = 0 and m = 6305039478318694])
       apply simp_all
  done

lemma step_33: "num_mul (PyFloat (Finite (7656119366529843 / 4503599627370496))) (PyFloat (Finite (5404319552844595 / 9007199254740992))) = Inr (PyFloat (Finite (2296835809958953 / 2251799813685248)))"
  apply (simp add: num_mul_def to_double_int )
  apply (rule fround_eqI [where e = 0 and m = 4593671619917906])
       apply simp_all
  done

lemma step_34: "num_mul (PyFloat (Finite (3152519739159347 / 2251799813685248))) (PyFloat (Finite (3602879701896397 / 9007199254740992))) = Inr (PyFloat (Finite (5044031582654955 / 9007199254740992)))"
  apply (simp add: num_mul_def to_double_int )
  apply (rule fround_eqI [where e = "- 1" and m = 5044031582654955])
       apply simp_all
  done

lemma step_35: "num_add (PyFloat (Finite (2296835809958953 / 2251799813685248))) (PyFloat (Finite (5044031582654955 / 9007199254740992))) = Inr (PyFloat (Finite (889460926405673 / 562949953421312)))"
  apply (simp add: num_add_def to_double_int )
  apply (rule fround_eqI [where e = 0 and m = 7115687411245384])
       apply simp_all
  done

lemma step_36: "num_mul (PyFloat (Finite (7656119366529843 / 9007199254740992))) (PyInt 7) = Inr (PyFloat (Finite (6699104445713613 / 1125899906842624)))"
  apply (simp add: num_mul_def to_double_int )
  apply (rule fround_eqI [where e = 2 and m = 6699104445713613])
       apply simp_all
  done

lemma step_37: "num_add (PyInt 0) (PyFloat (Finite (6699104445713613 / 1125899906842624))) = Inr (PyFloat (Finite (6699104445713613 / 1125899906842624)))"
  apply (simp add: num_add_def to_double_int )
  apply (rule fround_eqI [where e = 2 and m = 6699104445713613])
       apply simp_all
  done

lemma step_38: "num_mul (PyFloat (Finite (3152519739159347 / 4503599627370496))) (PyInt 7) = Inr (PyFloat (Finite (5516909543528857 / 1125899906842624)))"
  apply (simp add: num_mul_def to_double_int )
  apply (rule fround_eqI [where e = 2 and m = 5516909543528857])
       apply simp_all
  done

lemma step_39: "num_add (PyInt 0) (PyFloat (Finite (5516909543528857 / 1125899906842624))) = Inr (PyFloat (Finite (5516909543528857 / 1125899906842624)))"
  apply (simp add: num_add_def to_double_int )
  apply (rule fround_eqI [where e = 2 and m = 5516909543528857])
       apply simp_all
  done

lemma step_40: "num_mul (PyFloat (Finite (6699104445713613 / 1125899906842624))) (PyFloat (Finite (5404319552844595 / 9007199254740992))) = Inr (PyFloat (Finite (8038925334856335 / 2251799813685248)))"
  apply (simp add: num_mul_def to_double_int )
  apply (rule fround_eqI [where e = 1 and m = 8038925334856335])
       apply simp_all
  done

lemma step_41: "num_mul (PyFloat (Finite (5516909543528857 / 1125899906842624))) (PyFloat (Finite (3602879701896397 / 9007199254740992))) = Inr (PyFloat (Finite (2206763817411543 / 1125899906842624)))"
  apply (simp add: num_mul_def to_double_int )
  apply (rule fround_eqI [where e = 0 and m = 8827055269646172])
       apply simp_all
  done

lemma step_42: "num_add (PyFloat (Finite (8038925334856335 / 2251799813685248))) (PyFloat (Finite (2206763817411543 / 1125899906842624))) = Inr (PyFloat (Finite (3113113242419855 / 562949953421312)))"
  apply (simp add: num_add_def to_double_int )
  apply (rule fround_eqI [where e = 2 and m = 6226226484839710])
       apply simp_all
  done

lemma step_43: "num_add (PyFloat (Finite (7656119366529843 / 4503599627370496))) (PyFloat (Finite (6699104445713613 / 1125899906842624))) = Inr (PyFloat (Finite (4306567143673037 / 562949953421312)))"
  apply (simp add: num_add_def to_double_int )
  apply (rule fround_eqI [where e = 2 and m = 8613134287346074])
       apply simp_all
  done

lemma step_44: "num_add (PyFloat (Finite (3152519739159347 / 2251799813685248))) (PyFloat (Finite (5516909543528857 / 1125899906842624))) = Inr (PyFloat (Finite (3546584706554265 / 562949953421312)))"
  apply (simp add: num_add_def to_double_int )
  apply (rule fround_eqI [where e = 2 and m = 7093169413108530])
       apply simp_all
  done

lemma step_45: "to_double (PyInt 1000000000000000000000000000000000000000000000000000000000000000000000000000000000000000000000000000000000000000000000000000000000000000000000000000000000000000000000000000000000000000000000000000000000000000000000000000000000000000000000000000000000000000000000000000000000000000000000000000000000000000000000) = Inl OverflowError"
proof -
  have "fround (rat_of_int 1000000000000000000000000000000000000000000000000000000000000000000000000000000000000000000000000000000000000000000000000000000000000000000000000000000000000000000000000000000000000000000000000000000000000000000000000000000000000000000000000000000000000000000000000000000000000000000000000000000000000000000000) = PosInf"
    by (subst fround_overflow) simp_all
  then show ?thesis by (simp add: to_double_def int_to_double_def)
qed

lemma step_46: "num_mul (PyFloat (Finite (7656119366529843 / 9007199254740992))) (PyInt 1000000000000000000000000000000000000000000000000000000000000000000000000000000000000000000000000000000000000000000000000000000000000000000000000000000000000000000000000000000000000000000000000000000000000000000000000000000000000000000000000000000000000000000000000000000000000000000000000000000000000000000000) = Inl OverflowError"
  by (simp add: num_mul_def step_45)

lemma step_47: "num_mul (PyFloat (Finite 66500)) (PyInt 1000000000000000000000000000000000000000000000000000000000000000000000000000000000000000000000000000000000000000000000000000000000000000000000000000000000000000000000000000000000000000000000000000000000000000000000000000000000000000000000000000000000000000000000000000000000000000000000000000000000000000000000) = Inl OverflowError"
  by (simp add: num_mul_def step_45)

















lemma step_64: "num_mul (PyFloat (Finite (5404319552844595 / 9007199254740992))) (PyInt 3) = Inr (PyFloat (Finite (2026619832316723 / 1125899906842624)))"
  apply (simp add: num_mul_def to_double_int )
  apply (rule fround_eqI [where e = 0 and m = 8106479329266892])
       apply simp_all
  done

lemma step_65: "num_add (PyFloat (Finite (7656119366529843 / 4503599627370496))) (PyFloat (Finite (2026619832316723 / 1125899906842624))) = Inr (PyFloat (Finite (7 / 2)))"
  apply (simp add: num_add_def to_double_int )
  apply (rule fround_eqI [where e = 1 and m = 7881299347898368])
       apply simp_all
  done

lemma step_66: "num_mul (PyFloat (Finite (1 / 2))) (PyInt 3) = Inr (PyFloat (Finite (3 / 2)))"
  apply (simp add: num_mul_def to_double_int )
  apply (rule fround_eqI [where e = 0 and m = 6755399441055744])
       apply simp_all
  done

lemma step_67: "num_add (PyFloat (Finite (3152519739159347 / 2251799813685248))) (PyFloat (Finite (3 / 2))) = Inr (PyFloat (Finite (6530219459687219 / 2251799813685248)))"
  apply (simp add: num_add_def to_double_int )
  apply (rule fround_eqI [where e = 1 and m = 6530219459687219])
       apply simp_all
  done

lemma step_68: "num_mul (PyFloat (Finite (7 / 2))) (PyFloat (Finite (5404319552844595 / 9007199254740992))) = Inr (PyFloat (Finite (4728779608739021 / 2251799813685248)))"
  apply (simp add: num_mul_def to_double_int )
  apply (rule fround_eqI [where e = 1 and m = 4728779608739021])
       apply simp_all
  done

lemma step_69: "num_mul (PyFloat (Finite (6530219459687219 / 2251799813685248))) (PyFloat (Finite (3602879701896397 / 9007199254740992))) = Inr (PyFloat (Finite (5224175567749775 / 4503599627370496)))"
  apply (simp add: num_mul_def to_double_int )
  apply (rule fround_eqI [where e = 0 and m = 5224175567749775])
       apply simp_all
  done

lemma step_70: "num_add (PyFloat (Finite (4728779608739021 / 2251799813685248))) (PyFloat (Finite (5224175567749775 / 4503599627370496))) = Inr (PyFloat (Finite (1835216848153477 / 562949953421312)))"
  apply (simp add: num_add_def to_double_int )
  apply (rule fround_eqI [where e = 1 and m = 7340867392613908])
       apply simp_all
  done

lemma step_71: "num_add (PyFloat (Finite 1500)) (PyInt 5000) = Inr (PyFloat (Finite 6500))"
  apply (simp add: num_add_def to_double_int )
  apply (rule fround_eqI [where e = 12 and m = 7146825580544000])
       apply simp_all
  done














lemma step_85: "num_mul (PyFloat (Finite 6500)) (PyInt 1000000000000000000000000000000000000000000000000000000000000000000000000000000000000000000000000000000000000000000000000000000000000000000000000000000000000000000000000000000000000000000000000000000000000000000000000000000000000000000000000000000000000000000000000000000000000000000000000000000000000000000000) = Inl OverflowError"
  by (simp add: num_mul_def step_45)

text \<open>Three runs, every operation of which is one of the steps above.\<close>

lemma score_of_two_drones_three_detectors:
  "calculate_efficiency_score [(''backup_drone'', 2), (''rf_detector'', 3)] (PyInt 100) =
     Inr \<lparr>efficiency_score = PyFloat (Finite (7 / 2)),
          response_improvement = PyFloat (Finite (6530219459687219 / 2251799813685248)),
          overall_score = PyFloat (Finite (1835216848153477 / 562949953421312))\<rparr>"
  by (simp add: calculate_efficiency_score_def lookup_backup_drone lookup_rf_detector
      gain_backup_drone response_backup_drone gain_rf_detector response_rf_detector
      literal_06_normal literal_04_normal
      step_29 step_30 step_31 step_32 step_64 step_65 step_66 step_67 step_68 step_69 step_70)


lemma annual_cost_of_huge_quantity:
  "calculate_annual_cost ''gps_tracker'' (10 ^ 309) (PyInt 100) = Inl OverflowError"
  by (simp add: calculate_annual_cost_def lookup_gps_tracker gps_tracker_costs
      step_7 step_9 step_10 step_71 step_45 step_85)

section \<open>Operations that return\<close>

text \<open>
  An arithmetic operation of the interpreter can only fail by the conversion of an
  \<open>int\<close> beyond the range of a double; on two floats it always returns.
\<close>

lemma to_double_cases: "to_double a = Inl OverflowError \<or> (\<exists>d. to_double a = Inr d)"
  by (cases a) (auto simp: to_double_def int_to_double_def split: double.splits)

lemma num_mul_error: "num_mul a b = Inl e \<Longrightarrow> e = OverflowError"
  using to_double_cases [of a] to_double_cases [of b]
  by (cases a; cases b) (auto simp: num_mul_def)

lemma num_add_error: "num_add a b = Inl e \<Longrightarrow> e = OverflowError"
  using to_double_cases [of a] to_double_cases [of b]
  by (cases a; cases b) (auto simp: num_add_def)

lemma small_in_float_range: "\<bar>n\<bar> \<le> 2 ^ 53 \<Longrightarrow> in_float_range n"
proof -
  assume "\<bar>n\<bar> \<le> 2 ^ 53"
  then have "rat_of_int \<bar>n\<bar> \<le> of_int (2 ^ 53)" by (simp only: of_int_le_iff)
  moreover have "(2::rat) ^ 53 < 2 powi 1024 - 2 powi 970" by simp
  ultimately show ?thesis by (simp add: in_float_range_def)
qed

lemma num_add_float_int:
  "in_float_range n \<Longrightarrow>
   num_add (PyFloat d) (PyInt n) = Inr (PyFloat (fadd d (fround (of_int n))))"
  by (simp add: num_add_def to_double_in_range double_of_def)

lemma num_add_float_float [simp]:
  "num_add (PyFloat d) (PyFloat d') = Inr (PyFloat (fadd d d'))"
  by (simp add: num_add_def)

lemma num_mul_float_int:
  "in_float_range n \<Longrightarrow>
   num_mul (PyFloat d) (PyInt n) = Inr (PyFloat (fmul d (fround (of_int n))))"
  by (simp add: num_mul_def to_double_in_range double_of_def)

lemma num_mul_int_float:
  "in_float_range n \<Longrightarrow>
   num_mul (PyInt n) (PyFloat d) = Inr (PyFloat (fmul (fround (of_int n)) d))"
  by (simp add: num_mul_def to_double_in_range double_of_def)

lemma num_mul_float_float [simp]:
  "num_mul (PyFloat d) (PyFloat d') = Inr (PyFloat (fmul d d'))"
  by (simp add: num_mul_def)

lemma catalog_small:
  assumes "(k, eq) \<in> set all_equipment"
  shows "acquisition_cost eq div lifespan eq \<le> 2 ^ 53 \<and> maintenance_cost eq \<le> 2 ^ 53
    \<and> readiness_cost eq \<le> 2 ^ 53 \<and> usage_cost_per_hour eq \<le> 500"
  using assms unfolding all_equipment_eq
  by (auto simp: backup_drone_def thermal_camera_def gps_tracker_def satellite_comm_def
      rf_detector_def portable_gps_def offroad_vehicle_def)

lemma catalog_truediv:
  assumes "(k, eq) \<in> set all_equipment"
  shows "int_truediv (acquisition_cost eq) (lifespan eq)
     = Inr (Finite (of_int (acquisition_cost eq div lifespan eq)))"
  using catalog_costs [OF assms] catalog_small [OF assms]
  by (intro int_truediv_exact) auto

lemma calculate_annual_cost_error:
  assumes "(k, eq) \<in> set all_equipment" and "calculate_annual_cost k q h = Inl e"
  shows "e = OverflowError"
  using assms(2)
  unfolding calculate_annual_cost_def lookup_known [OF assms(1)] and_then_Inr catalog_truediv [OF assms(1)]
  by (auto simp: and_then_def split: sum.splits dest: num_mul_error num_add_error)

lemma calculate_annual_cost_in_range:
  assumes eq: "(k, eq) \<in> set all_equipment" and q: "in_float_range q"
    and h: "\<And>n. h = PyInt n \<Longrightarrow> in_float_range (usage_cost_per_hour eq * n)"
  shows "\<exists>r t. calculate_annual_cost k q h = Inr r \<and> cd_total r = PyFloat t
    \<and> cd_maintenance r = PyInt (maintenance_cost eq * q)
    \<and> cd_readiness r = PyInt (readiness_cost eq * q)"
proof -
  from catalog_costs [OF eq] catalog_small [OF eq]
  have m: "in_float_range (maintenance_cost eq)" and r: "in_float_range (readiness_cost eq)"
    and u: "in_float_range (usage_cost_per_hour eq)"
    by (auto intro!: small_in_float_range)
  show ?thesis
  proof (cases h)
    case (PyInt n)
    then have "in_float_range (usage_cost_per_hour eq * n)" by (rule h)
    then show ?thesis
      unfolding calculate_annual_cost_def lookup_known [OF eq] and_then_Inr catalog_truediv [OF eq] PyInt
      by (simp add: num_add_float_int num_mul_float_int m r q)
  next
    case (PyFloat d)
    show ?thesis
      unfolding calculate_annual_cost_def lookup_known [OF eq] and_then_Inr catalog_truediv [OF eq] PyFloat
      by (simp add: num_add_float_int num_mul_float_int num_mul_int_float m r u q)
  qed
qed

section \<open>The scoring loop\<close>

text \<open>
  On catalog keys and quantities within the range of a double, the loop of
  \<open>calculate_efficiency_score\<close> returns the two sums, accumulated in double arithmetic in the
  order of the entries; on the first key outside the catalog it raises \<open>KeyError\<close>.
\<close>

lemma fmul_commute: "fmul a b = fmul b a"
  by (cases a; cases b) (simp_all add: mult.commute)

lemma to_double_zero: "to_double (PyInt 0) = Inr (Finite 0)"
  using to_double_int [of 0] by simp

lemma num_add_convertible:
  "to_double a = Inr d \<Longrightarrow> num_add a (PyFloat g) = Inr (PyFloat (fadd d g))"
  by (cases a) (simp_all add: num_add_def)

lemma default_usage_in_range:
  assumes "(k, eq) \<in> set all_equipment"
  shows "in_float_range (usage_cost_per_hour eq * default_usage_hours)"
  using catalog_costs [OF assms] catalog_small [OF assms]
  by (intro small_in_float_range) (simp add: default_usage_hours_def)

lemma score_loop_known:
  assumes "fst ` set cfg \<subseteq> set equipment_list"
    and "list_all (\<lambda>(k, q). in_float_range q) cfg"
    and "to_double te = Inr a" and "to_double tr = Inr b" and "cfg \<noteq> []"
  shows "score_loop cfg te tr =
     Inr (PyFloat (foldl fadd a
            (map (\<lambda>(k, q). fmul (float_literal (efficiency_gain_of k)) (fround (of_int q))) cfg)),
          PyFloat (foldl fadd b
            (map (\<lambda>(k, q). fmul (float_literal (response_time_reduction_of k)) (fround (of_int q)))
               cfg)))"
  using assms
proof (induction cfg arbitrary: te tr a b)
  case Nil
  then show ?case by simp
next
  case (Cons kq cfg)
  obtain k q where kq: "kq = (k, q)" by (cases kq)
  have "k \<in> set equipment_list" using Cons.prems(1) by (simp add: kq)
  then obtain eq where eq: "(k, eq) \<in> set all_equipment" using known_entry by blast
  have q: "in_float_range q" using Cons.prems(2) by (simp add: kq)
  have g: "efficiency_gain_of k = efficiency_gain eq"
    and r: "response_time_reduction_of k = response_time_reduction eq"
    by (simp_all add: efficiency_gain_of_def response_time_reduction_of_def lookup_known [OF eq])
  have step: "score_loop (kq # cfg) te tr =
      score_loop cfg
        (PyFloat (fadd a (fmul (float_literal (efficiency_gain_of k)) (fround (of_int q)))))
        (PyFloat (fadd b (fmul (float_literal (response_time_reduction_of k)) (fround (of_int q)))))"
    by (simp add: kq lookup_known [OF eq] num_mul_float_int [OF q] g r
        num_add_convertible [OF Cons.prems(3)] num_add_convertible [OF Cons.prems(4)])
  show ?case
  proof (cases "cfg = []")
    case True
    show ?thesis unfolding step by (simp add: True kq)
  next
    case False
    have rest: "fst ` set cfg \<subseteq> set equipment_list" "list_all (\<lambda>(k, q). in_float_range q) cfg"
      using Cons.prems(1,2) by auto
    show ?thesis
      unfolding step
      by (subst Cons.IH [OF rest _ _ False]) (simp_all add: kq)
  qed
qed

lemma score_loop_unknown:
  assumes "\<not> fst ` set cfg \<subseteq> set equipment_list"
    and "list_all (\<lambda>(k, q). in_float_range q) cfg"
    and "to_double te = Inr a" and "to_double tr = Inr b"
  shows "\<exists>k. k \<in> fst ` set cfg \<and> k \<notin> set equipment_list \<and>
           score_loop cfg te tr = Inl (KeyError k)"
  using assms
proof (induction cfg arbitrary: te tr a b)
  case Nil
  then show ?case by simp
next
  case (Cons kq cfg)
  obtain k q where kq: "kq = (k, q)" by (cases kq)
  show ?case
  proof (cases "k \<in> set equipment_list")
    case False
    then show ?thesis by (auto simp: kq lookup_unknown)
  next
    case True
    then obtain eq where eq: "(k, eq) \<in> set all_equipment" using known_entry by blast
    have q: "in_float_range q" using Cons.prems(2) by (simp add: kq)
    from True Cons.prems(1) have unk: "\<not> fst ` set cfg \<subseteq> set equipment_list" by (auto simp: kq)
    have rest: "list_all (\<lambda>(k, q). in_float_range q) cfg" using Cons.prems(2) by simp
    have step: "score_loop (kq # cfg) te tr =
      score_loop cfg
        (PyFloat (fadd a (fmul (float_literal (efficiency_gain eq)) (fround (of_int q)))))
        (PyFloat (fadd b (fmul (float_literal (response_time_reduction eq)) (fround (of_int q)))))"
      by (simp add: kq lookup_known [OF eq] num_mul_float_int [OF q]
          num_add_convertible [OF Cons.prems(3)] num_add_convertible [OF Cons.prems(4)])
    from Cons.IH [OF unk rest to_double_float to_double_float]
    obtain k' where "k' \<in> fst ` set cfg" "k' \<notin> set equipment_list"
      "score_loop cfg
        (PyFloat (fadd a (fmul (float_literal (efficiency_gain eq)) (fround (of_int q)))))
        (PyFloat (fadd b (fmul (float_literal (response_time_reduction eq)) (fround (of_int q)))))
       = Inl (KeyError k')"
      by blast
    then show ?thesis by (intro exI [of _ k']) (simp add: step)
  qed
qed

lemma score_loop_start:
  assumes "fst ` set cfg \<subseteq> set equipment_list"
    and "list_all (\<lambda>(k, q). in_float_range q) cfg"
  shows "score_loop cfg (PyInt 0) (PyInt 0) =
     Inr (score_sum efficiency_gain_of cfg, score_sum response_time_reduction_of cfg)"
proof (cases "cfg = []")
  case True
  then show ?thesis by (simp add: score_sum_def)
next
  case False
  from score_loop_known [OF assms to_double_zero to_double_zero False]
  show ?thesis by (simp add: score_sum_def False)
qed

lemma num_mul_score:
  "num_mul (score_sum f cfg) (PyFloat l) = Inr (PyFloat (fmul (double_of (score_sum f cfg)) l))"
  by (simp add: score_sum_def double_of_def num_mul_def to_double_zero)
    (simp add: fround_def)

lemma efficiency_score_known:
  assumes "fst ` set cfg \<subseteq> set equipment_list"
    and "list_all (\<lambda>(k, q). in_float_range q) cfg"
  shows "calculate_efficiency_score cfg h =
     Inr \<lparr>efficiency_score = score_sum efficiency_gain_of cfg,
          response_improvement = score_sum response_time_reduction_of cfg,
          overall_score =
            PyFloat (fadd (fmul (float_literal 0.6) (double_of (score_sum efficiency_gain_of cfg)))
                          (fmul (float_literal 0.4)
                                (double_of (score_sum response_time_reduction_of cfg))))\<rparr>"
  using fmul_commute [of "double_of (score_sum efficiency_gain_of cfg)" "float_literal 0.6"]
    fmul_commute [of "double_of (score_sum response_time_reduction_of cfg)" "float_literal 0.4"]
  by (simp add: calculate_efficiency_score_def score_loop_start [OF assms] num_mul_score)

lemma efficiency_score_unknown:
  assumes "\<not> fst ` set cfg \<subseteq> set equipment_list"
    and "list_all (\<lambda>(k, q). in_float_range q) cfg"
  shows "\<exists>k. k \<in> fst ` set cfg \<and> k \<notin> set equipment_list \<and>
           calculate_efficiency_score cfg h = Inl (KeyError k)"
proof -
  from score_loop_unknown [OF assms to_double_zero to_double_zero]
  obtain k where "k \<in> fst ` set cfg" "k \<notin> set equipment_list"
    "score_loop cfg (PyInt 0) (PyInt 0) = Inl (KeyError k)" by blast
  then show ?thesis by (auto simp: calculate_efficiency_score_def)
qed

section \<open>The cost loop\<close>



lemma breakdown_loop_known:
  assumes "fst ` set cfg \<subseteq> set equipment_list"
    and "list_all (\<lambda>(k, q). in_float_range q) cfg"
    and "to_double t = Inr d"
  shows "\<exists>cd' t' d'. breakdown_loop cfg cd t = Inr (cd', t') \<and> to_double t' = Inr d'"
  using assms
proof (induction cfg arbitrary: cd t d)
  case Nil
  then show ?case by simp
next
  case (Cons kq cfg)
  obtain k q where kq: "kq = (k, q)" by (cases kq)
  have "k \<in> set equipment_list" using Cons.prems(1) by (simp add: kq)
  then obtain eq where eq: "(k, eq) \<in> set all_equipment" using known_entry by blast
  have q: "in_float_range q" using Cons.prems(2) by (simp add: kq)
  have rest: "fst ` set cfg \<subseteq> set equipment_list" "list_all (\<lambda>(k, q). in_float_range q) cfg"
    using Cons.prems(1,2) by auto
  show ?case
  proof (cases "0 < q")
    case False
    with Cons.IH [OF rest Cons.prems(3)] show ?thesis by (simp add: kq)
  next
    case True
    obtain c tc where c: "calculate_annual_cost k q (PyInt default_usage_hours) = Inr c"
      and tc: "cd_total c = PyFloat tc"
      using calculate_annual_cost_in_range [OF eq q, of "PyInt default_usage_hours"]
        default_usage_in_range [OF eq] by auto
    have step: "breakdown_loop (kq # cfg) cd t =
        breakdown_loop cfg (AList.update k c cd) (PyFloat (fadd d tc))"
      using True by (simp add: kq c tc num_add_convertible [OF Cons.prems(3)])
    from Cons.IH [OF rest to_double_float] show ?thesis unfolding step .
  qed
qed

lemma breakdown_loop_error:
  assumes "breakdown_loop cfg cd t = Inl e"
    and "list_all (\<lambda>(k, q). in_float_range q) cfg"
    and "to_double t = Inr d"
  shows "\<exists>k. k \<in> fst ` set cfg \<and> k \<notin> set equipment_list \<and> e = KeyError k"
  using assms
proof (induction cfg arbitrary: cd t d)
  case Nil
  then show ?case by simp
next
  case (Cons kq cfg)
  obtain k q where kq: "kq = (k, q)" by (cases kq)
  have q: "in_float_range q" using Cons.prems(2) by (simp add: kq)
  have rest: "list_all (\<lambda>(k, q). in_float_range q) cfg" using Cons.prems(2) by simp
  show ?case
  proof (cases "0 < q")
    case False
    with Cons.prems(1) have "breakdown_loop cfg cd t = Inl e" by (simp add: kq)
    from Cons.IH [OF this rest Cons.prems(3)] show ?thesis by auto
  next
    case True
    show ?thesis
    proof (cases "k \<in> set equipment_list")
      case False
      then have "calculate_annual_cost k q (PyInt default_usage_hours) = Inl (KeyError k)"
        by (simp add: calculate_annual_cost_def lookup_unknown)
      with True Cons.prems(1) False show ?thesis by (auto simp: kq)
    next
      case known: True
      then obtain eq where eq: "(k, eq) \<in> set all_equipment" using known_entry by blast
      obtain c tc where c: "calculate_annual_cost k q (PyInt default_usage_hours) = Inr c"
        and tc: "cd_total c = PyFloat tc"
        using calculate_annual_cost_in_range [OF eq q, of "PyInt default_usage_hours"]
          default_usage_in_range [OF eq] by auto
      have "breakdown_loop cfg (AList.update k c cd) (PyFloat (fadd d tc)) = Inl e"
        using True Cons.prems(1) by (simp add: kq c tc num_add_convertible [OF Cons.prems(3)])
      from Cons.IH [OF this rest to_double_float] show ?thesis by auto
    qed
  qed
qed

lemma num_add_float_result: "num_add (PyFloat x) b = Inr c \<Longrightarrow> \<exists>y. c = PyFloat y"
  by (cases b) (auto simp: num_add_def and_then_def split: sum.splits)

lemma num_mul_float_result: "num_mul (PyFloat x) b = Inr c \<Longrightarrow> \<exists>y. c = PyFloat y"
  by (cases b) (auto simp: num_mul_def and_then_def split: sum.splits)

lemma calculate_annual_cost_total:
  assumes "calculate_annual_cost k q h = Inr c"
  shows "\<exists>t. cd_total c = PyFloat t"
  using assms
  by (auto simp: calculate_annual_cost_def and_then_def split: sum.splits
      dest!: num_add_float_result num_mul_float_result)

lemma breakdown_loop_convertible:
  assumes "breakdown_loop cfg cd t = Inr (cd', t')" and "to_double t = Inr d"
  shows "\<exists>d'. to_double t' = Inr d'"
  using assms
proof (induction cfg arbitrary: cd t d)
  case Nil
  then show ?case by simp
next
  case (Cons kq cfg)
  obtain k q where kq: "kq = (k, q)" by (cases kq)
  show ?case
  proof (cases "0 < q")
    case False
    with Cons.prems(1) have "breakdown_loop cfg cd t = Inr (cd', t')" by (simp add: kq)
    from Cons.IH [OF this Cons.prems(2)] show ?thesis .
  next
    case True
    with Cons.prems(1) obtain c t1 where
      c: "calculate_annual_cost k q (PyInt default_usage_hours) = Inr c"
      and t1: "num_add t (cd_total c) = Inr t1"
      and rest: "breakdown_loop cfg (AList.update k c cd) t1 = Inr (cd', t')"
      by (auto simp: kq and_then_def split: sum.splits)
    from calculate_annual_cost_total [OF c] obtain tc where "cd_total c = PyFloat tc" by blast
    with t1 num_add_convertible [OF Cons.prems(2)] have "t1 = PyFloat (fadd d tc)" by simp
    then have "to_double t1 = Inr (fadd d tc)" by simp
    from Cons.IH [OF rest this] show ?thesis .
  qed
qed

lemma num_mul_years:
  assumes "to_double t = Inr d" and "in_float_range years"
  shows "\<exists>t5. num_mul t (PyInt years) = Inr t5"
  using assms by (cases t) (simp_all add: num_mul_float_int)

lemma cost_breakdown_known:
  assumes "fst ` set cfg \<subseteq> set equipment_list"
    and "list_all (\<lambda>(k, q). in_float_range q) cfg"
    and "in_float_range years"
  shows "\<exists>cd t t5. breakdown_loop cfg [] (PyInt 0) = Inr (cd, t) \<and>
     num_mul t (PyInt years) = Inr t5 \<and>
     generate_cost_breakdown cfg years =
       Inr \<lparr>annual_breakdown = cd, total_annual_cost = t, total_5year_cost = t5,
            efficiency_metrics =
              \<lparr>efficiency_score = score_sum efficiency_gain_of cfg,
               response_improvement = score_sum response_time_reduction_of cfg,
               overall_score =
                 PyFloat (fadd (fmul (float_literal 0.6)
                                     (double_of (score_sum efficiency_gain_of cfg)))
                               (fmul (float_literal 0.4)
                                     (double_of (score_sum response_time_reduction_of cfg))))\<rparr>\<rparr>"
proof -
  obtain cd t d where loop: "breakdown_loop cfg [] (PyInt 0) = Inr (cd, t)"
    and d: "to_double t = Inr d"
    using breakdown_loop_known [OF assms(1,2) to_double_zero] by blast
  obtain t5 where t5: "num_mul t (PyInt years) = Inr t5"
    using num_mul_years [OF d assms(3)] by blast
  show ?thesis
    using efficiency_score_known [OF assms(1,2), of "PyInt default_usage_hours"]
    by (simp add: generate_cost_breakdown_def loop t5)
qed

lemma cost_breakdown_unknown:
  assumes "\<not> fst ` set cfg \<subseteq> set equipment_list"
    and "list_all (\<lambda>(k, q). in_float_range q) cfg"
    and "in_float_range years"
  shows "\<exists>k. k \<in> fst ` set cfg \<and> k \<notin> set equipment_list \<and>
           generate_cost_breakdown cfg years = Inl (KeyError k)"
proof (cases "breakdown_loop cfg [] (PyInt 0)")
  case (Inl e)
  from breakdown_loop_error [OF Inl assms(2) to_double_zero] show ?thesis
    by (auto simp: generate_cost_breakdown_def Inl)
next
  case (Inr r)
  obtain cd t where r: "r = (cd, t)" by (cases r)
  have "\<exists>d. to_double t = Inr d"
    using breakdown_loop_convertible [OF Inr [unfolded r] to_double_zero] .
  then obtain d where d: "to_double t = Inr d" by blast
  obtain t5 where t5: "num_mul t (PyInt years) = Inr t5"
    using num_mul_years [OF d assms(3)] by blast
  obtain k where "k \<in> fst ` set cfg" "k \<notin> set equipment_list"
    "calculate_efficiency_score cfg (PyInt default_usage_hours) = Inl (KeyError k)"
    using efficiency_score_unknown [OF assms(1,2)] by blast
  then show ?thesis
    by (auto simp: generate_cost_breakdown_def Inr r t5)
qed

section \<open>Quantities that are not checked\<close>

text \<open>
  C2, amended. \<open>calculate_annual_cost\<close> has no check of the quantity, so there is no
  \<open>InvalidQuantity\<close>: for a catalog key the only exception it can raise is the
  \<open>OverflowError\<close> of an integer too large for a double. It returns whenever the quantity
  and, for an integer number of hours, the usage cost of one unit are within the range of
  a double, whatever the sign of the quantity. For a non-negative integer number of hours,
  with the cost of one unit and the total no larger than \<open>2 ^ 53\<close>, the components are the
  exact products of the per-unit components and the quantity, and a negative quantity
  gives a negative total.
\<close>

theorem annual_cost_has_no_quantity_check:
  assumes "(k, eq) \<in> set all_equipment"
  shows "(\<forall>e. calculate_annual_cost k q h = Inl e \<longrightarrow> e = OverflowError) \<and>
     (in_float_range q \<and> (\<forall>n. h = PyInt n \<longrightarrow> in_float_range (usage_cost_per_hour eq * n))
        \<longrightarrow> (\<exists>r. calculate_annual_cost k q h = Inr r)) \<and>
     (\<forall>n. h = PyInt n \<and> 0 \<le> n \<and> total (annual_cost eq 1 (of_int n)) \<le> 2 ^ 53 \<and>
          \<bar>total (annual_cost eq q (of_int n))\<bar> \<le> 2 ^ 53 \<longrightarrow>
        calculate_annual_cost k q h =
          Inr \<lparr>cd_acquisition = PyFloat (Finite (acquisition (annual_cost eq q (of_int n)))),
               cd_maintenance = PyInt (maintenance_cost eq * q),
               cd_readiness = PyInt (readiness_cost eq * q),
               cd_usage = PyInt (usage_cost_per_hour eq * n * q),
               cd_total = PyFloat (Finite (total (annual_cost eq q (of_int n))))\<rparr> \<and>
        (q < 0 \<longrightarrow> total (annual_cost eq q (of_int n)) < 0))"
proof (intro conjI allI impI)
  fix e
  assume "calculate_annual_cost k q h = Inl e"
  with assms show "e = OverflowError" by (rule calculate_annual_cost_error)
next
  assume r: "in_float_range q \<and> (\<forall>n. h = PyInt n \<longrightarrow> in_float_range (usage_cost_per_hour eq * n))"
  then have "\<exists>r t. calculate_annual_cost k q h = Inr r \<and> cd_total r = PyFloat t
    \<and> cd_maintenance r = PyInt (maintenance_cost eq * q)
    \<and> cd_readiness r = PyInt (readiness_cost eq * q)"
    by (intro calculate_annual_cost_in_range [OF assms]) simp_all
  then show "\<exists>r. calculate_annual_cost k q h = Inr r" by blast
next
  fix n
  assume a: "h = PyInt n \<and> 0 \<le> n \<and> total (annual_cost eq 1 (of_int n)) \<le> 2 ^ 53 \<and>
          \<bar>total (annual_cost eq q (of_int n))\<bar> \<le> 2 ^ 53"
  then show "calculate_annual_cost k q h =
          Inr \<lparr>cd_acquisition = PyFloat (Finite (acquisition (annual_cost eq q (of_int n)))),
               cd_maintenance = PyInt (maintenance_cost eq * q),
               cd_readiness = PyInt (readiness_cost eq * q),
               cd_usage = PyInt (usage_cost_per_hour eq * n * q),
               cd_total = PyFloat (Finite (total (annual_cost eq q (of_int n))))\<rparr>"
    using calculate_annual_cost_exact [OF assms, of n q] by simp
  assume q: "q < 0"
  from catalog_costs [OF assms] a
  have "0 < acquisition_cost eq div lifespan eq + maintenance_cost eq + readiness_cost eq
      + usage_cost_per_hour eq * n"
    by (simp add: add_pos_nonneg)
  then have "(acquisition_cost eq div lifespan eq + maintenance_cost eq + readiness_cost eq
      + usage_cost_per_hour eq * n) * q < 0"
    using q by (rule mult_pos_neg)
  then have "rat_of_int ((acquisition_cost eq div lifespan eq + maintenance_cost eq
      + readiness_cost eq + usage_cost_per_hour eq * n) * q) < of_int 0"
    by (simp only: of_int_less_iff)
  then show "total (annual_cost eq q (of_int n)) < 0"
    unfolding annual_cost_int [OF assms] by simp
qed

text \<open>
  C2, amended, at three trackers returned (quantity \<open>- 3\<close>) for 100 hours, at half
  an hour of usage, where the call returns as well, and at \<open>10 ^ 309\<close> trackers, where the
  call raises \<open>OverflowError\<close>.
\<close>

theorem annual_cost_has_no_quantity_check_witness:
  "calculate_annual_cost ''gps_tracker'' (- 3) (PyInt 100) =
     Inr \<lparr>cd_acquisition = PyFloat (Finite (- 3000)), cd_maintenance = PyInt (- 900),
          cd_readiness = PyInt (- 600), cd_usage = PyInt (- 15000),
          cd_total = PyFloat (Finite (- 19500))\<rparr> \<and>
   (\<exists>r. calculate_annual_cost ''gps_tracker'' (- 3) (PyFloat (Finite (1 / 2))) = Inr r) \<and>
   calculate_annual_cost ''gps_tracker'' (10 ^ 309) (PyInt 100) = Inl OverflowError"
proof -
  have eq: "(''gps_tracker'', gps_tracker) \<in> set all_equipment" by (simp add: all_equipment_eq)
  note t = annual_cost_has_no_quantity_check [OF eq]
  have v: "annual_cost gps_tracker (- 3) 100 =
      \<lparr>acquisition = - 3000, maintenance = - 900, readiness = - 600, usage = - 15000,
       total = - 19500\<rparr>"
    "total (annual_cost gps_tracker 1 100) = 6500"
    by (simp_all add: annual_cost_def gps_tracker_def)
  have "calculate_annual_cost ''gps_tracker'' (- 3) (PyInt 100) =
     Inr \<lparr>cd_acquisition = PyFloat (Finite (- 3000)), cd_maintenance = PyInt (- 900),
          cd_readiness = PyInt (- 600), cd_usage = PyInt (- 15000),
          cd_total = PyFloat (Finite (- 19500))\<rparr>"
    using t [of "- 3" "PyInt 100", THEN conjunct2, THEN conjunct2, rule_format, of 100] v
    by (simp add: gps_tracker_def)
  moreover have "in_float_range (- 3)" by (intro small_in_float_range) simp
  then have "\<exists>r. calculate_annual_cost ''gps_tracker'' (- 3) (PyFloat (Finite (1 / 2))) = Inr r"
    using t [of "- 3" "PyFloat (Finite (1 / 2))", THEN conjunct2, THEN conjunct1] by simp
  moreover have "calculate_annual_cost ''gps_tracker'' (10 ^ 309) (PyInt 100) = Inl OverflowError"
    using t [of "10 ^ 309" "PyInt 100", THEN conjunct1] annual_cost_of_huge_quantity by simp
  ultimately show ?thesis by blast
qed

text \<open>
  C2 as stated fails: one drone returned (quantity \<open>- 1\<close>) is not rejected, the call
  returns a cost of \<open>- 66500\<close>.
\<close>

theorem negative_quantity_counterexample:
  "calculate_annual_cost ''backup_drone'' (- 1) (PyInt 100) =
     Inr \<lparr>cd_acquisition = PyFloat (Finite (- 10000)), cd_maintenance = PyInt (- 4500),
          cd_readiness = PyInt (- 2000), cd_usage = PyInt (- 50000),
          cd_total = PyFloat (Finite (- 66500))\<rparr>"
  by (simp del: num_add_float_float num_mul_float_float add: calculate_annual_cost_def lookup_backup_drone backup_drone_def
      step_1 step_2 step_3 step_4 step_5 step_6)

section \<open>Additivity of the annual cost\<close>

text \<open>
  C8, amended. For a catalog key, a non-negative integer number of usage hours and
  quantities \<open>q1, q2 \<ge> 0\<close> such that the cost of one unit and the total at \<open>q1 + q2\<close> are no
  larger than \<open>2 ^ 53\<close>, the three calls return, the total at \<open>q1 + q2\<close> is the exact
  product, and the sum of the totals at \<open>q1\<close> and at \<open>q2\<close>, as the interpreter adds them,
  is the total at \<open>q1 + q2\<close>.
\<close>

theorem annual_cost_additive:
  assumes "(k, eq) \<in> set all_equipment" and "0 \<le> h" and "0 \<le> q1" and "0 \<le> q2"
    and "total (annual_cost eq 1 (of_int h)) \<le> 2 ^ 53"
    and "total (annual_cost eq (q1 + q2) (of_int h)) \<le> 2 ^ 53"
  shows "\<exists>a b c. calculate_annual_cost k (q1 + q2) (PyInt h) = Inr a \<and>
           calculate_annual_cost k q1 (PyInt h) = Inr b \<and>
           calculate_annual_cost k q2 (PyInt h) = Inr c \<and>
           cd_total a = PyFloat (Finite (total (annual_cost eq (q1 + q2) (of_int h)))) \<and>
           num_add (cd_total b) (cd_total c) = Inr (cd_total a)"
proof -
  define T where "T = acquisition_cost eq div lifespan eq + maintenance_cost eq
      + readiness_cost eq + usage_cost_per_hour eq * h"
  have tot: "total (annual_cost eq q (of_int h)) = of_int (T * q)" for q
    using annual_cost_int [OF assms(1), of q h] by (simp add: T_def)
  from catalog_costs [OF assms(1)] assms(2) have T: "0 \<le> T" by (simp add: T_def)
  have whole: "T * (q1 + q2) \<le> 2 ^ 53"
    using assms(6) unfolding tot by (metis of_int_le_iff of_int_numeral of_int_power)
  have m1: "T * q1 \<le> T * (q1 + q2)" using T assms(4) by (intro mult_left_mono) simp_all
  have m2: "T * q2 \<le> T * (q1 + q2)" using T assms(3) by (intro mult_left_mono) simp_all
  have n1: "0 \<le> T * q1" and n2: "0 \<le> T * q2" and n: "0 \<le> T * (q1 + q2)"
    using T assms(3,4) by simp_all
  have b: "\<bar>total (annual_cost eq q (of_int h))\<bar> \<le> 2 ^ 53"
    if "0 \<le> T * q" and "T * q \<le> 2 ^ 53" for q
  proof -
    have "\<bar>T * q\<bar> \<le> 2 ^ 53" using that by simp
    then have "rat_of_int \<bar>T * q\<bar> \<le> of_int (2 ^ 53)" by (simp only: of_int_le_iff)
    then show ?thesis unfolding tot by simp
  qed
  note ex = calculate_annual_cost_exact [OF assms(1,2,5)]
  have a: "calculate_annual_cost k (q1 + q2) (PyInt h) =
     Inr \<lparr>cd_acquisition = PyFloat (Finite (acquisition (annual_cost eq (q1 + q2) (of_int h)))),
          cd_maintenance = PyInt (maintenance_cost eq * (q1 + q2)),
          cd_readiness = PyInt (readiness_cost eq * (q1 + q2)),
          cd_usage = PyInt (usage_cost_per_hour eq * h * (q1 + q2)),
          cd_total = PyFloat (Finite (total (annual_cost eq (q1 + q2) (of_int h))))\<rparr>"
    by (rule ex [OF b [OF n whole]])
  have b1: "calculate_annual_cost k q1 (PyInt h) =
     Inr \<lparr>cd_acquisition = PyFloat (Finite (acquisition (annual_cost eq q1 (of_int h)))),
          cd_maintenance = PyInt (maintenance_cost eq * q1),
          cd_readiness = PyInt (readiness_cost eq * q1),
          cd_usage = PyInt (usage_cost_per_hour eq * h * q1),
          cd_total = PyFloat (Finite (total (annual_cost eq q1 (of_int h))))\<rparr>"
    using m1 whole by (intro ex b n1) simp
  have b2: "calculate_annual_cost k q2 (PyInt h) =
     Inr \<lparr>cd_acquisition = PyFloat (Finite (acquisition (annual_cost eq q2 (of_int h)))),
          cd_maintenance = PyInt (maintenance_cost eq * q2),
          cd_readiness = PyInt (readiness_cost eq * q2),
          cd_usage = PyInt (usage_cost_per_hour eq * h * q2),
          cd_total = PyFloat (Finite (total (annual_cost eq q2 (of_int h))))\<rparr>"
    using m2 whole by (intro ex b n2) simp
  have "\<bar>T * q1 + T * q2\<bar> \<le> 2 ^ 53" using n whole by (simp add: distrib_left)
  then have "fround (of_int (T * q1 + T * q2)) = Finite (of_int (T * q1 + T * q2))"
    by (rule fround_of_int)
  then have sum: "num_add (PyFloat (Finite (total (annual_cost eq q1 (of_int h)))))
        (PyFloat (Finite (total (annual_cost eq q2 (of_int h)))))
      = Inr (PyFloat (Finite (total (annual_cost eq (q1 + q2) (of_int h)))))"
    unfolding tot by (simp add: distrib_left)
  show ?thesis
    using sum by (simp add: a b1 b2)
qed

text \<open>C8, amended, at two satellite links and one more, for 40 hours.\<close>

theorem annual_cost_additive_witness:
  "\<exists>a b c. calculate_annual_cost ''satellite_comm'' (2 + 1) (PyInt 40) = Inr a \<and>
           calculate_annual_cost ''satellite_comm'' 2 (PyInt 40) = Inr b \<and>
           calculate_annual_cost ''satellite_comm'' 1 (PyInt 40) = Inr c \<and>
           cd_total a = PyFloat (Finite 48750) \<and>
           num_add (cd_total b) (cd_total c) = Inr (cd_total a)"
proof -
  have eq: "(''satellite_comm'', satellite_comm) \<in> set all_equipment"
    by (simp add: all_equipment_eq)
  have v: "total (annual_cost satellite_comm 1 40) = 16250"
    "total (annual_cost satellite_comm 3 40) = 48750"
    by (simp_all add: annual_cost_def satellite_comm_def)
  from annual_cost_additive [OF eq, of 40 2 1] v show ?thesis by simp
qed

text \<open>
  C8 as stated fails when the products are rounded: for trackers used 128.2 hours, the
  total at \<open>3 + 5\<close> is the double 63279.99999999999, while the totals at 3 and at 5 add up
  to the double 63279.999999999985, both as doubles and as exact numbers.
\<close>

theorem annual_cost_not_additive_counterexample:
  "calculate_annual_cost ''gps_tracker'' (3 + 5) (PyFloat (float_literal 128.2)) =
     Inr \<lparr>cd_acquisition = PyFloat (Finite 8000), cd_maintenance = PyInt 2400,
          cd_readiness = PyInt 1600, cd_usage = PyFloat (Finite (7047869534044159 / 137438953472)),
          cd_total = PyFloat (Finite (8697136975708159 / 137438953472))\<rparr> \<and>
   calculate_annual_cost ''gps_tracker'' 3 (PyFloat (float_literal 128.2)) =
     Inr \<lparr>cd_acquisition = PyFloat (Finite 3000), cd_maintenance = PyInt 900,
          cd_readiness = PyInt 600, cd_usage = PyFloat (Finite (5285902150533119 / 274877906944)),
          cd_total = PyFloat (Finite (6522852731781119 / 274877906944))\<rparr> \<and>
   calculate_annual_cost ''gps_tracker'' 5 (PyFloat (float_literal 128.2)) =
     Inr \<lparr>cd_acquisition = PyFloat (Finite 5000), cd_maintenance = PyInt 1500,
          cd_readiness = PyInt 1000, cd_usage = PyFloat (Finite (8809836917555199 / 274877906944)),
          cd_total = PyFloat (Finite (5435710609817599 / 137438953472))\<rparr> \<and>
   num_add (PyFloat (Finite (6522852731781119 / 274877906944)))
           (PyFloat (Finite (5435710609817599 / 137438953472))) =
     Inr (PyFloat (Finite (4348568487854079 / 68719476736))) \<and>
   (8697136975708159 / 137438953472 :: rat) \<noteq> 4348568487854079 / 68719476736 \<and>
   (8697136975708159 / 137438953472 :: rat) \<noteq> 6522852731781119 / 274877906944 + 5435710609817599 / 137438953472"
  unfolding literal_1282
  by (simp del: num_add_float_float num_mul_float_float add: calculate_annual_cost_def lookup_gps_tracker gps_tracker_def
      step_7 step_8 step_9 step_10 step_11 step_12 step_13 step_14 step_15 step_16 step_17 step_18 step_19 step_20 step_21)

section \<open>Keys outside the catalog\<close>

text \<open>
  C3, amended. For an assignment whose quantities, and the number of years, are within
  the range of a double: when every key is in the catalog, \<open>calculate_efficiency_score\<close>
  and \<open>generate_cost_breakdown\<close> return; when some key is not, both raise the \<open>KeyError\<close>
  of a key of the assignment that is outside the catalog (the \<open>UnknownItem\<close> of the
  specification), whatever the quantity of that key.
\<close>

theorem unknown_key_raises:
  assumes "list_all (\<lambda>(k, q). in_float_range q) cfg" and "in_float_range years"
  shows "(fst ` set cfg \<subseteq> set equipment_list \<longrightarrow>
      (\<exists>m. calculate_efficiency_score cfg h = Inr m) \<and>
      (\<exists>r. generate_cost_breakdown cfg years = Inr r)) \<and>
   (\<not> fst ` set cfg \<subseteq> set equipment_list \<longrightarrow>
      (\<exists>k. k \<in> fst ` set cfg \<and> k \<notin> set equipment_list \<and>
           calculate_efficiency_score cfg h = Inl (KeyError k)) \<and>
      (\<exists>k. k \<in> fst ` set cfg \<and> k \<notin> set equipment_list \<and>
           generate_cost_breakdown cfg years = Inl (KeyError k)))"
proof (intro conjI impI)
  assume known: "fst ` set cfg \<subseteq> set equipment_list"
  show "\<exists>m. calculate_efficiency_score cfg h = Inr m"
    using efficiency_score_known [OF known assms(1)] by blast
  show "\<exists>r. generate_cost_breakdown cfg years = Inr r"
    using cost_breakdown_known [OF known assms] by blast
next
  assume unknown: "\<not> fst ` set cfg \<subseteq> set equipment_list"
  show "\<exists>k. k \<in> fst ` set cfg \<and> k \<notin> set equipment_list \<and>
           calculate_efficiency_score cfg h = Inl (KeyError k)"
    by (rule efficiency_score_unknown [OF unknown assms(1)])
  show "\<exists>k. k \<in> fst ` set cfg \<and> k \<notin> set equipment_list \<and>
           generate_cost_breakdown cfg years = Inl (KeyError k)"
    by (rule cost_breakdown_unknown [OF unknown assms])
qed

text \<open>
  C3, amended, at two trackers with no detector, and at two trackers with a helicopter
  at quantity 0.
\<close>

theorem unknown_key_raises_witness:
  "((\<exists>m. calculate_efficiency_score [(''gps_tracker'', 2), (''rf_detector'', 0)] (PyInt 100) = Inr m) \<and>
    (\<exists>r. generate_cost_breakdown [(''gps_tracker'', 2), (''rf_detector'', 0)] 5 = Inr r)) \<and>
   (calculate_efficiency_score [(''gps_tracker'', 2), (''helicopter'', 0)] (PyInt 100)
      = Inl (KeyError ''helicopter'') \<and>
    generate_cost_breakdown [(''gps_tracker'', 2), (''helicopter'', 0)] 5
      = Inl (KeyError ''helicopter''))"
proof -
  have r: "in_float_range 0" "in_float_range 2" "in_float_range 5"
    by (simp_all add: in_float_range_def)
  have a: "list_all (\<lambda>(k, q). in_float_range q) [(''gps_tracker'', 2), (''rf_detector'', 0)]"
    and b: "list_all (\<lambda>(k, q). in_float_range q) [(''gps_tracker'', 2), (''helicopter'', 0)]"
    using r by simp_all
  from unknown_key_raises [OF a r(3), of "PyInt 100"] unknown_key_raises [OF b r(3), of "PyInt 100"]
  show ?thesis by (auto simp: equipment_list_eq)
qed

text \<open>
  C3 as stated fails for a quantity beyond the range of a double: with \<open>10 ^ 309\<close> drones,
  all keys in the catalog, both functions raise \<open>OverflowError\<close> instead of returning, and
  with a helicopter after the drones they raise \<open>OverflowError\<close>, not \<open>KeyError\<close>.
\<close>

theorem huge_quantity_counterexample:
  "calculate_efficiency_score [(''backup_drone'', 10 ^ 309)] (PyInt 100) = Inl OverflowError \<and>
   generate_cost_breakdown [(''backup_drone'', 10 ^ 309)] 5 = Inl OverflowError \<and>
   calculate_efficiency_score [(''backup_drone'', 10 ^ 309), (''helicopter'', 1)] (PyInt 100)
     = Inl OverflowError \<and>
   generate_cost_breakdown [(''backup_drone'', 10 ^ 309), (''helicopter'', 1)] 5
     = Inl OverflowError"
  by (simp del: num_add_float_float num_mul_float_float add: calculate_efficiency_score_def generate_cost_breakdown_def
      calculate_annual_cost_def default_usage_hours_def lookup_backup_drone gain_backup_drone
      backup_drone_costs
      step_45 step_46 step_1 step_2 step_3 step_4 step_47)

section \<open>The efficiency scores\<close>

text \<open>
  C7, amended. For an assignment of catalog keys to quantities within the range of a
  double, \<open>calculate_efficiency_score\<close> returns; its efficiency score is the sum of the
  products of efficiency gain and quantity, its response improvement the sum of the
  products of response time reduction and quantity, each product and each addition
  rounded to a double, in the order of the entries; its overall score is the double sum
  of the double products of 0.6 with the efficiency score and of 0.4 with the response
  improvement. Exact linearity in a quantity is not part of the statement.
\<close>

theorem efficiency_score_formula:
  assumes "fst ` set cfg \<subseteq> set equipment_list"
    and "list_all (\<lambda>(k, q). in_float_range q) cfg"
  shows "\<exists>m. calculate_efficiency_score cfg h = Inr m \<and>
     efficiency_score m = score_sum efficiency_gain_of cfg \<and>
     response_improvement m = score_sum response_time_reduction_of cfg \<and>
     overall_score m =
       PyFloat (fadd (fmul (float_literal 0.6) (double_of (efficiency_score m)))
                     (fmul (float_literal 0.4) (double_of (response_improvement m))))"
  by (simp add: efficiency_score_known [OF assms])

text \<open>C7, amended, at two drones and three detectors, with the three scores.\<close>

theorem efficiency_score_formula_witness:
  "\<exists>m. calculate_efficiency_score [(''backup_drone'', 2), (''rf_detector'', 3)] (PyInt 100) = Inr m \<and>
     efficiency_score m = score_sum efficiency_gain_of [(''backup_drone'', 2), (''rf_detector'', 3)] \<and>
     response_improvement m
       = score_sum response_time_reduction_of [(''backup_drone'', 2), (''rf_detector'', 3)] \<and>
     overall_score m =
       PyFloat (fadd (fmul (float_literal 0.6) (double_of (efficiency_score m)))
                     (fmul (float_literal 0.4) (double_of (response_improvement m)))) \<and>
     efficiency_score m = PyFloat (Finite (7 / 2)) \<and>
     response_improvement m = PyFloat (Finite (6530219459687219 / 2251799813685248)) \<and>
     overall_score m = PyFloat (Finite (1835216848153477 / 562949953421312))"
proof -
  have known: "fst ` set [(''backup_drone'', 2 :: int), (''rf_detector'', 3)] \<subseteq> set equipment_list"
    by (simp add: equipment_list_eq)
  have r: "in_float_range 2" "in_float_range 3"
    by (simp_all add: in_float_range_def)
  then have rng: "list_all (\<lambda>(k, q). in_float_range q) [(''backup_drone'', 2), (''rf_detector'', 3)]"
    by simp
  from efficiency_score_formula [OF known rng, of "PyInt 100"]
  show ?thesis unfolding score_of_two_drones_three_detectors by simp
qed

text \<open>
  C7 as stated fails: the scores are not linear in a quantity. For drones the efficiency
  score at \<open>2 + 7\<close> is the double 7.6499999999999995, the scores at 2 and at 7 add up to
  the double 7.65, and neither is the exact product of 0.85 and 9.
\<close>

theorem score_not_linear_counterexample:
  "calculate_efficiency_score [(''backup_drone'', 2 + 7)] (PyInt 100) =
     Inr \<lparr>efficiency_score = PyFloat (Finite (8613134287346073 / 1125899906842624)),
          response_improvement = PyFloat (Finite (7093169413108531 / 1125899906842624)),
          overall_score = PyFloat (Finite (500321771103191 / 70368744177664))\<rparr> \<and>
   calculate_efficiency_score [(''backup_drone'', 2)] (PyInt 100) =
     Inr \<lparr>efficiency_score = PyFloat (Finite (7656119366529843 / 4503599627370496)),
          response_improvement = PyFloat (Finite (3152519739159347 / 2251799813685248)),
          overall_score = PyFloat (Finite (889460926405673 / 562949953421312))\<rparr> \<and>
   calculate_efficiency_score [(''backup_drone'', 7)] (PyInt 100) =
     Inr \<lparr>efficiency_score = PyFloat (Finite (6699104445713613 / 1125899906842624)),
          response_improvement = PyFloat (Finite (5516909543528857 / 1125899906842624)),
          overall_score = PyFloat (Finite (3113113242419855 / 562949953421312))\<rparr> \<and>
   num_add (PyFloat (Finite (7656119366529843 / 4503599627370496))) (PyFloat (Finite (6699104445713613 / 1125899906842624))) =
     Inr (PyFloat (Finite (4306567143673037 / 562949953421312))) \<and>
   (8613134287346073 / 1125899906842624 :: rat) \<noteq> 4306567143673037 / 562949953421312 \<and>
   (8613134287346073 / 1125899906842624 :: rat) \<noteq> 7656119366529843 / 4503599627370496 + 6699104445713613 / 1125899906842624 \<and>
   (8613134287346073 / 1125899906842624 :: rat) \<noteq> 0.85 * 9"
  by (simp del: num_add_float_float num_mul_float_float add: calculate_efficiency_score_def lookup_backup_drone gain_backup_drone
      response_backup_drone literal_06_normal literal_04_normal
      step_22 step_23 step_24 step_25 step_26 step_27 step_28 step_29 step_30 step_31 step_32 step_33 step_34 step_35 step_36 step_37 step_38 step_39 step_40 step_41 step_42 step_43 step_44)

section \<open>Entries that are not positive in the cost breakdown\<close>




end
